theory Spec2Isabelle
  imports Complex_Main
begin

section \<open>Numbers, vectors and matrices\<close>

text \<open>
  The plugin computes with C++ \<open>double\<close> (\<open>dReal\<close>) through Eigen. The embedding reads
  every such number as a real, so the statements below are the exact algebra of the code;
  rounding is not modelled. A \<open>Vector3\<close> is a triple, a \<open>Matrix3\<close> is the triple of its
  rows, a \<open>Position\<close> (an affine transform) is its linear part and its translation.
\<close>

type_synonym Vector3 = "real \<times> real \<times> real"
type_synonym Matrix3 = "Vector3 \<times> Vector3 \<times> Vector3"
type_synonym Position = "Matrix3 \<times> Vector3"

definition Zero3 :: Vector3 where
  "Zero3 = (0, 0, 0)"

definition Identity3 :: Matrix3 where
  "Identity3 = ((1, 0, 0), (0, 1, 0), (0, 0, 1))"

fun vadd :: "Vector3 \<Rightarrow> Vector3 \<Rightarrow> Vector3" where
  "vadd (x1, y1, z1) (x2, y2, z2) = (x1 + x2, y1 + y2, z1 + z2)"

fun vsub :: "Vector3 \<Rightarrow> Vector3 \<Rightarrow> Vector3" where
  "vsub (x1, y1, z1) (x2, y2, z2) = (x1 - x2, y1 - y2, z1 - z2)"

fun smul :: "real \<Rightarrow> Vector3 \<Rightarrow> Vector3" where
  "smul k (x, y, z) = (k * x, k * y, k * z)"

fun dot :: "Vector3 \<Rightarrow> Vector3 \<Rightarrow> real" where
  "dot (x1, y1, z1) (x2, y2, z2) = x1 * x2 + y1 * y2 + z1 * z2"

fun cross :: "Vector3 \<Rightarrow> Vector3 \<Rightarrow> Vector3" where
  "cross (x1, y1, z1) (x2, y2, z2) =
     (y1 * z2 - z1 * y2, z1 * x2 - x1 * z2, x1 * y2 - y1 * x2)"

definition squaredNorm :: "Vector3 \<Rightarrow> real" where
  "squaredNorm v = dot v v"

definition norm3 :: "Vector3 \<Rightarrow> real" where
  "norm3 v = sqrt (squaredNorm v)"

text \<open>\<open>v.normalize()\<close>: every component divided by the norm.\<close>

definition normalize3 :: "Vector3 \<Rightarrow> Vector3" where
  "normalize3 v = smul (1 / norm3 v) v"

fun mvmul :: "Matrix3 \<Rightarrow> Vector3 \<Rightarrow> Vector3" where
  "mvmul (r0, r1, r2) v = (dot r0 v, dot r1 v, dot r2 v)"

fun transpose3 :: "Matrix3 \<Rightarrow> Matrix3" where
  "transpose3 ((a00, a01, a02), (a10, a11, a12), (a20, a21, a22)) =
     ((a00, a10, a20), (a01, a11, a21), (a02, a12, a22))"

definition mmul :: "Matrix3 \<Rightarrow> Matrix3 \<Rightarrow> Matrix3" where
  "mmul A B =
     (case transpose3 B of (c0, c1, c2) \<Rightarrow>
        (case A of (r0, r1, r2) \<Rightarrow>
           ((dot r0 c0, dot r0 c1, dot r0 c2),
            (dot r1 c0, dot r1 c1, dot r1 c2),
            (dot r2 c0, dot r2 c1, dot r2 c2))))"

text \<open>\<open>T * offset\<close> for two affine transforms.\<close>

definition compose :: "Position \<Rightarrow> Position \<Rightarrow> Position" where
  "compose T S = (mmul (fst T) (fst S), vadd (mvmul (fst T) (snd S)) (snd T))"

text \<open>
  \<open>AngleAxis(angle, axis).toRotationMatrix()\<close> as Eigen computes it (the axis is used as
  it is given, without normalisation).
\<close>

fun AngleAxis_toRotationMatrix :: "real \<Rightarrow> Vector3 \<Rightarrow> Matrix3" where
  "AngleAxis_toRotationMatrix angle (ax, ay, az) =
     (let s = sin angle; c = cos angle; t = 1 - c in
        ((t * ax * ax + c, t * ax * ay - s * az, t * ax * az + s * ay),
         (t * ax * ay + s * az, t * ay * ay + c, t * ay * az - s * ax),
         (t * ax * az - s * ay, t * ay * az + s * ax, t * az * az + c)))"

text \<open>
  Modelled from the spec: the constant \<open>PI_2\<close> comes from a utility header that is not
  among the sources; it is the spec's \<open>\<pi>/2\<close>.
\<close>

definition PI_2 :: real where
  "PI_2 = pi / 2"

subsection \<open>Quaternions\<close>

text \<open>A \<open>Quat\<close> is written in the order of Eigen's constructor: \<open>(w, x, y, z)\<close>.\<close>

type_synonym Quat = "real \<times> real \<times> real \<times> real"

fun qmul :: "Quat \<Rightarrow> Quat \<Rightarrow> Quat" where
  "qmul (aw, ax, ay, az) (bw, bx, by, bz) =
     (aw * bw - ax * bx - ay * by - az * bz,
      aw * bx + ax * bw + ay * bz - az * by,
      aw * by + ay * bw + az * bx - ax * bz,
      aw * bz + az * bw + ax * by - ay * bx)"

fun qsquaredNorm :: "Quat \<Rightarrow> real" where
  "qsquaredNorm (w, x, y, z) = w * w + x * x + y * y + z * z"

text \<open>\<open>q.inverse()\<close>: the conjugate over the squared norm, the zero quaternion for norm 0.\<close>

fun qinverse :: "Quat \<Rightarrow> Quat" where
  "qinverse (w, x, y, z) =
     (let n2 = qsquaredNorm (w, x, y, z) in
        if 0 < n2 then (w / n2, - x / n2, - y / n2, - z / n2) else (0, 0, 0, 0))"

text \<open>\<open>Quat(AngleAxis(angle, axis))\<close>.\<close>

fun Quat_of_AngleAxis :: "real \<Rightarrow> Vector3 \<Rightarrow> Quat" where
  "Quat_of_AngleAxis angle (ax, ay, az) =
     (cos (angle / 2), sin (angle / 2) * ax, sin (angle / 2) * ay, sin (angle / 2) * az)"

section \<open>Solver handles\<close>

text \<open>
  \<open>dBodyID\<close>, \<open>dJointID\<close> and \<open>dGeomID\<close> are pointers into the solver. A handle is a
  natural number and \<open>0\<close> is the null pointer, as the code tests it (\<open>if(bodyID)\<close>).
\<close>

type_synonym dBodyID = nat
type_synonym dJointID = nat
type_synonym dGeomID = nat

text \<open>
  A \<open>std::map\<close> is an association list read with \<open>map_of\<close>. \<open>std::map::insert\<close>
  leaves the map as it is when the key is already there.
\<close>

definition map_insert :: "'k \<Rightarrow> 'v \<Rightarrow> ('k \<times> 'v) list \<Rightarrow> ('k \<times> 'v) list" where
  "map_insert k v m = (case map_of m k of None \<Rightarrow> m @ [(k, v)] | Some _ \<Rightarrow> m)"

section \<open>The kinematic model\<close>

text \<open>
  Modelled from the spec: the classes \<open>Link\<close> and \<open>Body\<close> of the kinematic-model
  collaborator are not among the sources; the plugin reads and writes them through their
  accessors (the spec's upstream interface: tree traversal by root, children and sibling,
  the joint type, limits and state of each link). A \<open>Link\<close> is the record of the fields
  the plugin touches, each named after its accessor (\<open>link->p()\<close> is \<open>Link_p\<close>);
  \<open>link->T()\<close> is the pair of \<open>Link_R\<close> and \<open>Link_p\<close>. A \<open>Link*\<close> is an address into a
  heap of links, so that a write through one pointer is seen through every other.
\<close>

datatype JointType =
  ROTATIONAL_JOINT | SLIDE_JOINT | FREE_JOINT | FIXED_JOINT | CRAWLER_JOINT
  | PSEUDO_CONTINUOUS_TRACK

record Link =
  Link_index :: int
  Link_name :: string
  Link_jointType :: JointType
  Link_p :: Vector3
  Link_R :: Matrix3
  Link_v :: Vector3
  Link_w :: Vector3
  Link_dv :: Vector3
  Link_dw :: Vector3
  Link_b :: Vector3
  Link_c :: Vector3
  Link_a :: Vector3
  Link_d :: Vector3
  Link_q :: real
  Link_dq :: real
  Link_ddq :: real
  Link_u :: real
  Link_q_upper :: real
  Link_q_lower :: real
  Link_f_ext :: Vector3
  Link_tau_ext :: Vector3

type_synonym LinkPtr = nat
type_synonym LinkHeap = "LinkPtr \<Rightarrow> Link"

definition isRotationalJoint :: "Link \<Rightarrow> bool" where
  "isRotationalJoint l = (Link_jointType l = ROTATIONAL_JOINT)"

definition isSlideJoint :: "Link \<Rightarrow> bool" where
  "isSlideJoint l = (Link_jointType l = SLIDE_JOINT)"

text \<open>
  The link tree: a link and its children in the order of \<open>child()\<close>, \<open>sibling()\<close>,
  \<open>sibling()\<close>, ...
\<close>

datatype LinkTree = LinkNode LinkPtr "LinkTree list"

fun rootOf :: "LinkTree \<Rightarrow> LinkPtr" where
  "rootOf (LinkNode l cs) = l"

text \<open>The links of a tree, each before its children, the children from first to last.\<close>

fun preorder :: "LinkTree \<Rightarrow> LinkPtr list" where
  "preorder (LinkNode l cs) = l # concat (map preorder cs)"

text \<open>
  Modelled from the spec: the value nodes of the body's \<open>info\<close> mapping (the host's
  structured archive) are not among the sources. A scalar carries its text and, when the
  text reads as a number, its value; \<open>toString\<close> and \<open>toDouble\<close> throw on the other
  nodes, which the spec calls an unparseable per-wheel configuration.
\<close>

datatype ValueNode = ScalarNode string "real option" | NonScalarNode

datatype ValueError = NotScalarException | ScalarTypeMismatchException

fun toString :: "ValueNode \<Rightarrow> ValueError + string" where
  "toString (ScalarNode s x) = Inr s"
| "toString NonScalarNode = Inl NotScalarException"

fun toDouble :: "ValueNode \<Rightarrow> ValueError + real" where
  "toDouble (ScalarNode s (Some x)) = Inr x"
| "toDouble (ScalarNode s None) = Inl ScalarTypeMismatchException"
| "toDouble NonScalarNode = Inl NotScalarException"

text \<open>
  The mapping \<open>mecanumWheelSetting\<close> of the body's \<open>info\<close>: each of its two listings is
  \<open>None\<close> when \<open>findListing\<close> returns an invalid node.
\<close>

record MecanumWheelInfo =
  info_links :: "ValueNode list option"
  info_barrelAngles :: "ValueNode list option"

text \<open>
  A \<open>Body\<close>: its link tree, the array of its joints (\<open>joint(i)\<close> for
  \<open>i < numJoints()\<close>), and the \<open>mecanumWheelSetting\<close> mapping of its \<open>info\<close>
  (\<open>None\<close> when \<open>findMapping\<close> returns an invalid node).
\<close>

record Body =
  rootLink :: LinkTree
  joints :: "LinkPtr list"
  isStaticModel :: bool
  info_mecanumWheelSetting :: "MecanumWheelInfo option"

definition numJoints :: "Body \<Rightarrow> nat" where
  "numJoints body = length (joints body)"

definition joint :: "Body \<Rightarrow> nat \<Rightarrow> LinkPtr" where
  "joint body i = joints body ! i"

text \<open>
  Modelled from the spec: \<open>body->link(name)\<close> of the kinematic-model collaborator, the
  link of that name, null (\<open>None\<close>) when there is none.
\<close>

definition Body_link :: "LinkHeap \<Rightarrow> Body \<Rightarrow> string \<Rightarrow> LinkPtr option" where
  "Body_link h body s = find (\<lambda>l. Link_name (h l) = s) (preorder (rootLink body))"

text \<open>
  Modelled from the spec: the kinematic tree gives every link a unique index, and the
  adapter vector that mirrors the tree is index-aligned with it. The class that assigns
  the indices is not among the sources; the links of a body are numbered from 0 in the
  order of the tree traversal, a link before its children and the children from first to
  last.
\<close>

definition linkIndicesInTraversalOrder :: "LinkHeap \<Rightarrow> Body \<Rightarrow> bool" where
  "linkIndicesInTraversalOrder h b =
     (map (\<lambda>l. Link_index (h l)) (preorder (rootLink b)) =
        map int [0 ..< length (preorder (rootLink b))])"

text \<open>
  Modelled from the spec: \<open>body.clearExternalForces()\<close> is the external-force reset of
  the kinematic-model collaborator and is not among the sources; the external force and
  torque of every link of the body become zero.
\<close>

definition clearExternalForces :: "Body \<Rightarrow> LinkHeap \<Rightarrow> LinkHeap" where
  "clearExternalForces body h =
     (\<lambda>l. if l \<in> set (preorder (rootLink body))
           then (h l)\<lparr>Link_f_ext := Zero3, Link_tau_ext := Zero3\<rparr> else h l)"

section \<open>The solver\<close>

text \<open>
  The state of the dynamics solver that the plugin writes and reads through the solver's
  C interface. A body holds its position, its rotation both as a matrix and as a
  quaternion, and its velocities. A setter stores the value it is given; the solver
  derives the other representation of the rotation with its own conversions, which are
  parameters of the model (see \<open>Ext\<close> below).
\<close>

record dxBody =
  body_data :: LinkPtr
  posr_pos :: Vector3
  posr_R :: Matrix3
  body_q :: Quat
  lvel :: Vector3
  avel :: Vector3
  body_kinematic :: bool

datatype dJointType = dJointTypeHinge | dJointTypeSlider | dJointTypeFixed | dJointTypePlane2D

datatype dParam = dParamHiStop | dParamLoStop | dParamFMax | dParamFudgeFactor | dParamVel

text \<open>
  A joint: its kind, the two bodies it is attached to, anchor and axis, the parameters
  set so far, the torque or force added in this step, and the joint position and rate that
  the solver reports (\<open>dJointGetHingeAngle\<close>, \<open>dJointGetHingeAngleRate\<close>,
  \<open>dJointGetSliderPosition\<close>, \<open>dJointGetSliderPositionRate\<close>).
\<close>

record dxJoint =
  joint_type :: dJointType
  node0_body :: dBodyID
  node1_body :: dBodyID
  joint_anchor :: Vector3
  joint_axis :: Vector3
  joint_params :: "dParam \<Rightarrow> real option"
  joint_added :: real
  joint_position :: real
  joint_rate :: real

record dxGeom =
  geom_pos :: Vector3
  geom_R :: Matrix3

record dxWorld =
  bodies :: "dBodyID \<Rightarrow> dxBody"
  dxjoints :: "dJointID \<Rightarrow> dxJoint"
  geoms :: "dGeomID \<Rightarrow> dxGeom"
  nextHandle :: nat

definition dBodyCreate :: "dxWorld \<Rightarrow> dBodyID \<times> dxWorld" where
  "dBodyCreate W =
     (nextHandle W,
      W\<lparr>bodies := (bodies W)(nextHandle W :=
           \<lparr>body_data = 0, posr_pos = Zero3, posr_R = Identity3, body_q = (1, 0, 0, 0),
            lvel = Zero3, avel = Zero3, body_kinematic = False\<rparr>),
        nextHandle := Suc (nextHandle W)\<rparr>)"

definition dBodySetData :: "dBodyID \<Rightarrow> LinkPtr \<Rightarrow> dxWorld \<Rightarrow> dxWorld" where
  "dBodySetData b l W = W\<lparr>bodies := (bodies W)(b := (bodies W b)\<lparr>body_data := l\<rparr>)\<rparr>"

definition dBodySetPosition :: "dBodyID \<Rightarrow> Vector3 \<Rightarrow> dxWorld \<Rightarrow> dxWorld" where
  "dBodySetPosition b x W = W\<lparr>bodies := (bodies W)(b := (bodies W b)\<lparr>posr_pos := x\<rparr>)\<rparr>"

definition dBodySetLinearVel :: "dBodyID \<Rightarrow> Vector3 \<Rightarrow> dxWorld \<Rightarrow> dxWorld" where
  "dBodySetLinearVel b x W = W\<lparr>bodies := (bodies W)(b := (bodies W b)\<lparr>lvel := x\<rparr>)\<rparr>"

definition dBodySetAngularVel :: "dBodyID \<Rightarrow> Vector3 \<Rightarrow> dxWorld \<Rightarrow> dxWorld" where
  "dBodySetAngularVel b x W = W\<lparr>bodies := (bodies W)(b := (bodies W b)\<lparr>avel := x\<rparr>)\<rparr>"

definition dBodySetKinematic :: "dBodyID \<Rightarrow> dxWorld \<Rightarrow> dxWorld" where
  "dBodySetKinematic b W =
     W\<lparr>bodies := (bodies W)(b := (bodies W b)\<lparr>body_kinematic := True\<rparr>)\<rparr>"

definition dJointCreate :: "dJointType \<Rightarrow> dxWorld \<Rightarrow> dJointID \<times> dxWorld" where
  "dJointCreate k W =
     (nextHandle W,
      W\<lparr>dxjoints := (dxjoints W)(nextHandle W :=
           \<lparr>joint_type = k, node0_body = 0, node1_body = 0, joint_anchor = Zero3,
            joint_axis = Zero3, joint_params = (\<lambda>_. None), joint_added = 0,
            joint_position = 0, joint_rate = 0\<rparr>),
        nextHandle := Suc (nextHandle W)\<rparr>)"

definition dJointAttach :: "dJointID \<Rightarrow> dBodyID \<Rightarrow> dBodyID \<Rightarrow> dxWorld \<Rightarrow> dxWorld" where
  "dJointAttach j b1 b2 W =
     W\<lparr>dxjoints := (dxjoints W)(j := (dxjoints W j)\<lparr>node0_body := b1, node1_body := b2\<rparr>)\<rparr>"

definition dJointSetAnchor :: "dJointID \<Rightarrow> Vector3 \<Rightarrow> dxWorld \<Rightarrow> dxWorld" where
  "dJointSetAnchor j x W =
     W\<lparr>dxjoints := (dxjoints W)(j := (dxjoints W j)\<lparr>joint_anchor := x\<rparr>)\<rparr>"

definition dJointSetAxis :: "dJointID \<Rightarrow> Vector3 \<Rightarrow> dxWorld \<Rightarrow> dxWorld" where
  "dJointSetAxis j x W =
     W\<lparr>dxjoints := (dxjoints W)(j := (dxjoints W j)\<lparr>joint_axis := x\<rparr>)\<rparr>"

definition dJointSetParam :: "dJointID \<Rightarrow> dParam \<Rightarrow> real \<Rightarrow> dxWorld \<Rightarrow> dxWorld" where
  "dJointSetParam j prm x W =
     W\<lparr>dxjoints := (dxjoints W)(j :=
          (dxjoints W j)\<lparr>joint_params := (joint_params (dxjoints W j))(prm \<mapsto> x)\<rparr>)\<rparr>"

text \<open>\<open>dJointAddHingeTorque\<close> and \<open>dJointAddSliderForce\<close>.\<close>

definition dJointAddForce :: "dJointID \<Rightarrow> real \<Rightarrow> dxWorld \<Rightarrow> dxWorld" where
  "dJointAddForce j x W =
     W\<lparr>dxjoints := (dxjoints W)(j :=
          (dxjoints W j)\<lparr>joint_added := joint_added (dxjoints W j) + x\<rparr>)\<rparr>"

definition dGeomSetPosition :: "dGeomID \<Rightarrow> Vector3 \<Rightarrow> dxWorld \<Rightarrow> dxWorld" where
  "dGeomSetPosition g x W = W\<lparr>geoms := (geoms W)(g := (geoms W g)\<lparr>geom_pos := x\<rparr>)\<rparr>"

definition dGeomSetRotation :: "dGeomID \<Rightarrow> Matrix3 \<Rightarrow> dxWorld \<Rightarrow> dxWorld" where
  "dGeomSetRotation g x W = W\<lparr>geoms := (geoms W)(g := (geoms W g)\<lparr>geom_R := x\<rparr>)\<rparr>"

subsection \<open>Contacts\<close>

text \<open>
  The flags of a contact surface's \<open>mode\<close>. A mode is the set of the flags that the
  source joins with \<open>|\<close>; every flag keeps the name the source writes, \<open>dContactApprox1\<close>
  included.
\<close>

datatype dContactFlag =
  dContactMu2 | dContactFDir1 | dContactBounce | dContactMotion1 | dContactApprox1_1
  | dContactApprox1_2 | dContactApprox1

record dSurfaceParameters =
  mode :: "dContactFlag set"
  mu :: real
  mu2 :: real
  motion1 :: real

record dContactGeom =
  pos :: Vector3
  normal :: Vector3
  depth :: real

record dContact =
  surface :: dSurfaceParameters
  geom :: dContactGeom
  fdir1 :: Vector3

text \<open>
  A contact joint of the contact joint group: the contact it was created from
  (\<open>dJointCreateContact\<close>) and the two bodies it is attached to (\<open>dJointAttach\<close>).
\<close>

record dxJointContact =
  contact :: dContact
  contact_body1 :: dBodyID
  contact_body2 :: dBodyID

section \<open>The plugin's data\<close>

text \<open>
  What the plugin takes from outside its sources is a parameter of the model, collected in
  one record: the solver's two rotation conversions; the geometries that the shape-graph
  traversal (\<open>MeshExtractor\<close>) yields for a link, as the handles created, their offset
  map and the solver state afterwards; the kinematic model's forward kinematics and
  virtual joint forces; the leaf pairs with their contact manifolds that the solver's
  space traversal and \<open>dCollide\<close> report; the pairs that the external collision detector
  reports; the outcome of the vacuum-gripper hook; and the solver's integrator.
\<close>

record Collision =
  point :: Vector3
  col_normal :: Vector3
  col_depth :: real

record CollisionPair =
  geometryId0 :: nat
  geometryId1 :: nat
  collisions :: "Collision list"

record Ext =
  dQfromR :: "Matrix3 \<Rightarrow> Quat"
  dRfromQ :: "Quat \<Rightarrow> Matrix3"
  extractGeometry ::
    "LinkPtr \<Rightarrow> dBodyID \<Rightarrow> dxWorld \<Rightarrow> dGeomID list \<times> (dGeomID \<times> Position) list \<times> dxWorld"
  calcForwardKinematics :: "Body \<Rightarrow> LinkHeap \<Rightarrow> LinkHeap"
  setVirtualJointForces :: "Body \<Rightarrow> LinkHeap \<Rightarrow> LinkHeap"
  dSpaceCollide :: "dxWorld \<Rightarrow> (dBodyID \<times> dBodyID \<times> dContact list) list"
  detectCollisions :: "LinkHeap \<Rightarrow> CollisionPair list"
  isContactProcessingSkip :: "dBodyID \<Rightarrow> dBodyID \<Rightarrow> dContact list \<Rightarrow> bool"
  uninitialized :: dContact
  dWorldStep :: "bool \<Rightarrow> real \<Rightarrow> dxJointContact list \<Rightarrow> dxWorld \<Rightarrow> dxWorld"

definition dBodySetRotation :: "Ext \<Rightarrow> dBodyID \<Rightarrow> Matrix3 \<Rightarrow> dxWorld \<Rightarrow> dxWorld" where
  "dBodySetRotation ext b x W =
     W\<lparr>bodies := (bodies W)(b := (bodies W b)\<lparr>posr_R := x, body_q := dQfromR ext x\<rparr>)\<rparr>"

definition dBodySetQuaternion :: "Ext \<Rightarrow> dBodyID \<Rightarrow> Quat \<Rightarrow> dxWorld \<Rightarrow> dxWorld" where
  "dBodySetQuaternion ext b x W =
     W\<lparr>bodies := (bodies W)(b := (bodies W b)\<lparr>body_q := x, posr_R := dRfromQ ext x\<rparr>)\<rparr>"

record ODELink =
  link :: LinkPtr
  bodyID :: dBodyID
  jointID :: dJointID
  geomID :: "dGeomID list"
  offsetMap :: "(dGeomID \<times> Position) list"
  motorID :: dJointID

record ODEBody =
  body :: Body
  odeLinks :: "ODELink list"
  body_worldID :: nat
  body_spaceID :: nat
  geometryId :: nat

text \<open>
  \<open>ODESimulatorItemImpl\<close>. \<open>world\<close> is the solver state behind \<open>worldID\<close>,
  \<open>contactJointGroup\<close> the joints of the group behind \<open>contactJointGroupID\<close>, in the
  order of their creation; \<open>numGeometries\<close> is the number of geometries registered in
  the external collision detector. \<open>stepMode_iterative\<close> is
  \<open>stepMode.is(STEP_ITERATIVE)\<close>.
\<close>

record ODESimulatorItemImpl =
  flipYZ :: bool
  worldID :: nat
  spaceID :: nat
  world :: dxWorld
  contactJointGroup :: "dxJointContact list"
  timeStep :: real
  crawlerLinks :: "(dBodyID \<times> LinkPtr) list"
  geometryIdToLink :: "ODELink option list"
  numGeometries :: nat
  stepMode_iterative :: bool
  friction :: real
  isJointLimitMode :: bool
  is2Dmode :: bool
  useWorldCollision :: bool
  velocityMode :: bool
  mecanumWheelSetting :: "(dBodyID \<times> real) list"

section \<open>Building the adapters\<close>

definition identity :: Matrix3 where
  "identity = ((1, 0, 0), (0, 1, 0), (0, 0, 1))"

definition flippedIdentity :: Matrix3 where
  "flippedIdentity = ((1, 0, 0), (0, 0, 1), (0, -1, 0))"

fun makeInternal :: "Vector3 \<Rightarrow> Vector3" where
  "makeInternal (x, y, z) = (x, z, - y)"

fun toInternal :: "Vector3 \<Rightarrow> Vector3" where
  "toInternal (x, y, z) = (x, z, - y)"

text \<open>\<open>numeric_limits<double>::max()\<close>.\<close>

definition DBL_MAX :: real where
  "DBL_MAX = (2 - 1 / 2 ^ 52) * 2 ^ 1023"

text \<open>The joint limits of a hinge or a slider (\<open>dParamHiStop\<close>, \<open>dParamLoStop\<close>).\<close>

definition setJointStops :: "bool \<Rightarrow> Link \<Rightarrow> dJointID \<Rightarrow> dxWorld \<Rightarrow> dxWorld" where
  "setJointStops limitMode lk j W =
     (if limitMode then
        (let W1 = (if Link_q_upper lk < DBL_MAX
                   then dJointSetParam j dParamHiStop (Link_q_upper lk) W else W)
         in (if Link_q_lower lk > - DBL_MAX
             then dJointSetParam j dParamLoStop (Link_q_lower lk) W1 else W1))
      else W)"

text \<open>
  The velocity servo of a hinge or a slider in velocity mode (\<open>USE_AMOTOR\<close> is false, the
  solver is not the Gazebo variant).
\<close>

definition setJointServo :: "bool \<Rightarrow> dJointID \<Rightarrow> dxWorld \<Rightarrow> dxWorld" where
  "setJointServo velMode j W =
     (if velMode
      then dJointSetParam j dParamFudgeFactor 1 (dJointSetParam j dParamFMax DBL_MAX W)
      else W)"

text \<open>
  \<open>ODELink::createLinkBody\<close>. It returns the adapter with its body and joint handles and
  the simulator with the new solver objects and, for a tracked link welded to a parent
  body, with the link registered in \<open>crawlerLinks\<close>. The mass parameters that the source
  hands to the solver are not part of the model.
\<close>

definition createLinkBody ::
  "Ext \<Rightarrow> LinkHeap \<Rightarrow> ODELink option \<Rightarrow> Vector3 \<Rightarrow> ODELink \<Rightarrow> ODESimulatorItemImpl
     \<Rightarrow> ODELink \<times> ODESimulatorItemImpl" where
  "createLinkBody ext h parent origin this simImpl =
     (let lk = h (link this);
          (bID, W1) = dBodyCreate (world simImpl);
          W2 = dBodySetData bID (link this) W1;
          flip = flipYZ simImpl;
          c = (if \<not> flip then Link_c lk else toInternal (Link_c lk));
          og = (if \<not> flip then origin else toInternal origin);
          a = (if \<not> flip then Link_a lk else toInternal (Link_a lk));
          d = (if \<not> flip then Link_d lk else toInternal (Link_d lk));
          W3 = dBodySetRotation ext bID (if \<not> flip then identity else flippedIdentity) W2;
          W4 = dBodySetPosition bID (vadd og c) W3;
          parentBodyID = (case parent of None \<Rightarrow> 0 | Some par \<Rightarrow> bodyID par)
      in (case Link_jointType lk of
            ROTATIONAL_JOINT \<Rightarrow>
              (let (jID, W5) = dJointCreate dJointTypeHinge W4;
                   W6 = dJointAttach jID bID parentBodyID W5;
                   W7 = dJointSetAxis jID a (dJointSetAnchor jID og W6);
                   W8 = setJointStops (isJointLimitMode simImpl) lk jID W7;
                   W9 = setJointServo (velocityMode simImpl) jID W8
               in (this\<lparr>bodyID := bID, jointID := jID\<rparr>, simImpl\<lparr>world := W9\<rparr>))
          | SLIDE_JOINT \<Rightarrow>
              (let (jID, W5) = dJointCreate dJointTypeSlider W4;
                   W6 = dJointAttach jID bID parentBodyID W5;
                   W7 = dJointSetAxis jID d W6;
                   W8 = setJointStops (isJointLimitMode simImpl) lk jID W7;
                   W9 = setJointServo (velocityMode simImpl) jID W8
               in (this\<lparr>bodyID := bID, jointID := jID\<rparr>, simImpl\<lparr>world := W9\<rparr>))
          | FREE_JOINT \<Rightarrow> (this\<lparr>bodyID := bID\<rparr>, simImpl\<lparr>world := W4\<rparr>)
          | _ \<Rightarrow>
              (if parentBodyID \<noteq> 0 then
                 (let (jID, W5) = dJointCreate dJointTypeFixed W4;
                      W6 = dJointAttach jID bID parentBodyID W5;
                      cl = (if Link_jointType lk = PSEUDO_CONTINUOUS_TRACK
                               \<or> Link_jointType lk = CRAWLER_JOINT
                            then map_insert bID (link this) (crawlerLinks simImpl)
                            else crawlerLinks simImpl)
                  in (this\<lparr>bodyID := bID, jointID := jID\<rparr>,
                      simImpl\<lparr>world := W6, crawlerLinks := cl\<rparr>))
               else (this\<lparr>bodyID := bID\<rparr>, simImpl\<lparr>world := dBodySetKinematic bID W4\<rparr>))))"

text \<open>
  \<open>ODELink::createGeometry\<close>: the geometries of the link's shape, attached to the link's
  body. What the shape yields is the parameter \<open>extractGeometry\<close>.
\<close>

definition createGeometry ::
  "Ext \<Rightarrow> ODELink \<Rightarrow> ODESimulatorItemImpl \<Rightarrow> ODELink \<times> ODESimulatorItemImpl" where
  "createGeometry ext this simImpl =
     (case extractGeometry ext (link this) (bodyID this) (world simImpl) of
        (gs, offs, W) \<Rightarrow> (this\<lparr>geomID := gs, offsetMap := offs\<rparr>, simImpl\<lparr>world := W\<rparr>))"

text \<open>
  The constructor \<open>ODELink::ODELink\<close>, on the pair of the simulator and the
  \<open>ODEBody\<close> it writes. The new adapter is appended to \<open>odeLinks\<close> first; the vector
  holds the pointer \<open>this\<close>, so the handles written afterwards are seen through it, which
  is the update at the adapter's position. Then the children are constructed, from first
  to last, each with this adapter as its parent.
\<close>

fun ODELink_new ::
  "Ext \<Rightarrow> LinkHeap \<Rightarrow> ODELink option \<Rightarrow> Vector3 \<Rightarrow> LinkTree
     \<Rightarrow> ODESimulatorItemImpl \<times> ODEBody \<Rightarrow> ODESimulatorItemImpl \<times> ODEBody" where
  "ODELink_new ext h parent parentOrigin (LinkNode l cs) (simImpl, odeBody) =
     (let k = length (odeLinks odeBody);
          this0 = \<lparr>link = l, bodyID = 0, jointID = 0, geomID = [], offsetMap = [],
                   motorID = 0\<rparr>;
          odeBody1 = odeBody\<lparr>odeLinks := odeLinks odeBody @ [this0]\<rparr>;
          og = vadd parentOrigin (Link_b (h l));
          (this1, simImpl1) =
            (if body_worldID odeBody1 \<noteq> 0
             then createLinkBody ext h parent og this0 simImpl else (this0, simImpl));
          (this2, simImpl2) =
            (if \<not> useWorldCollision simImpl1
             then createGeometry ext this1 simImpl1 else (this1, simImpl1));
          odeBody2 = odeBody1\<lparr>odeLinks := (odeLinks odeBody1)[k := this2]\<rparr>
      in fold (\<lambda>child. ODELink_new ext h (Some this2) og child) cs (simImpl2, odeBody2))"

text \<open>
  The constructor \<open>ODEBody::ODEBody\<close>: no handles yet, and an empty vector of adapters.
\<close>

definition ODEBody_new :: "Body \<Rightarrow> ODEBody" where
  "ODEBody_new orgBody =
     \<lparr>body = orgBody, odeLinks = [], body_worldID = 0, body_spaceID = 0, geometryId = 0\<rparr>"

section \<open>Transfer of the kinematic state\<close>

text \<open>
  \<open>ODELink::setKinematicStateToODE\<close>: the link's state written to its solver body, or,
  for a link without a body, to each of its geometries.
\<close>

definition ODELink_setKinematicStateToODE ::
  "Ext \<Rightarrow> LinkHeap \<Rightarrow> ODELink \<Rightarrow> dxWorld \<Rightarrow> dxWorld" where
  "ODELink_setKinematicStateToODE ext h this W =
     (let lk = h (link this);
          T = (Link_R lk, Link_p lk)
      in if bodyID this \<noteq> 0 then
           (let R2 = fst T;
                W1 = dBodySetRotation ext (bodyID this) R2 W;
                lc = mvmul (Link_R lk) (Link_c lk);
                c = vadd (Link_p lk) lc;
                W2 = dBodySetPosition (bodyID this) c W1;
                w = Link_w lk;
                v = vadd (Link_v lk) (cross w lc);
                W3 = dBodySetLinearVel (bodyID this) v W2
            in dBodySetAngularVel (bodyID this) w W3)
         else
           fold (\<lambda>g W'.
                  (let offset = (case map_of (offsetMap this) g of
                                   None \<Rightarrow> (Identity3, Zero3) | Some x \<Rightarrow> x);
                       T' = compose T offset;
                       pp = vadd (snd T') (Link_c lk)
                   in dGeomSetRotation g (fst T') (dGeomSetPosition g pp W')))
             (geomID this) W)"

definition ODELink_setKinematicStateToODEflip ::
  "Ext \<Rightarrow> LinkHeap \<Rightarrow> ODELink \<Rightarrow> dxWorld \<Rightarrow> dxWorld" where
  "ODELink_setKinematicStateToODEflip ext h this W =
     (let lk = h (link this);
          R2 = (case Link_R lk of (r0, r1, r2) \<Rightarrow> (r0, r2, smul (- 1) r1))
      in if bodyID this \<noteq> 0 then
           (let W1 = dBodySetRotation ext (bodyID this) R2 W;
                lc = mvmul (Link_R lk) (Link_c lk);
                c = vadd (Link_p lk) lc;
                W2 = dBodySetPosition (bodyID this)
                       (case c of (cx, cy, cz) \<Rightarrow> (cx, cz, - cy)) W1;
                w = Link_w lk;
                v = vadd (Link_v lk) (cross w lc);
                W3 = dBodySetLinearVel (bodyID this)
                       (case v of (vx, vy, vz) \<Rightarrow> (vx, vz, - vy)) W2
            in dBodySetAngularVel (bodyID this)
                 (case w of (wx, wy, wz) \<Rightarrow> (wx, wz, - wy)) W3)
         else
           (let c = vadd (Link_p lk) (mvmul (Link_R lk) (Link_c lk))
            in fold (\<lambda>g W'.
                       dGeomSetRotation g R2
                         (dGeomSetPosition g (case c of (cx, cy, cz) \<Rightarrow> (cx, cy, - cz)) W'))
                 (geomID this) W))"

text \<open>
  The joint position and rate that both \<open>getKinematicStateFromODE\<close> functions read first,
  for a link with a joint handle.
\<close>

definition getJointState :: "ODELink \<Rightarrow> dxWorld \<Rightarrow> Link \<Rightarrow> Link" where
  "getJointState this W lk =
     (if jointID this \<noteq> 0 then
        (if isRotationalJoint lk then
           lk\<lparr>Link_q := joint_position (dxjoints W (jointID this)),
              Link_dq := joint_rate (dxjoints W (jointID this))\<rparr>
         else if isSlideJoint lk then
           lk\<lparr>Link_q := joint_position (dxjoints W (jointID this)),
              Link_dq := joint_rate (dxjoints W (jointID this))\<rparr>
         else lk)
      else lk)"

text \<open>
  \<open>ODELink::getKinematicStateFromODE\<close>: the solver body's state written back to the
  link. The solver's getters dereference the body handle; for a link without a body
  (a static body) there is no result, which is \<open>None\<close>.
\<close>

definition ODELink_getKinematicStateFromODE ::
  "ODELink \<Rightarrow> dxWorld \<Rightarrow> LinkHeap \<Rightarrow> LinkHeap option" where
  "ODELink_getKinematicStateFromODE this W h =
     (if bodyID this = 0 then None
      else
        (let lk1 = getJointState this W (h (link this));
             b = bodies W (bodyID this);
             lk2 = lk1\<lparr>Link_R := posr_R b\<rparr>;
             c = mvmul (Link_R lk2) (Link_c lk2);
             lk3 = lk2\<lparr>Link_p := vsub (posr_pos b) c\<rparr>;
             lk4 = lk3\<lparr>Link_w := avel b\<rparr>;
             lk5 = lk4\<lparr>Link_v := vsub (lvel b) (cross (Link_w lk4) c)\<rparr>
         in Some (h(link this := lk5))))"

definition ODELink_getKinematicStateFromODEflip ::
  "ODELink \<Rightarrow> dxWorld \<Rightarrow> LinkHeap \<Rightarrow> LinkHeap option" where
  "ODELink_getKinematicStateFromODEflip this W h =
     (if bodyID this = 0 then None
      else
        (let lk1 = getJointState this W (h (link this));
             b = bodies W (bodyID this);
             lk2 = lk1\<lparr>Link_R := (case posr_R b of (r0, r1, r2) \<Rightarrow> (r0, smul (- 1) r2, r1))\<rparr>;
             c = toInternal (mvmul (Link_R lk2) (Link_c lk2));
             pp = vsub (posr_pos b) c;
             w = avel b;
             v = vsub (lvel b) (cross w c);
             lk3 = lk2\<lparr>Link_p := (case pp of (px, py, pz) \<Rightarrow> (px, - pz, py))\<rparr>;
             lk4 = lk3\<lparr>Link_w := (case w of (wx, wy, wz) \<Rightarrow> (wx, - wz, wy))\<rparr>;
             lk5 = lk4\<lparr>Link_v := (case v of (vx, vy, vz) \<Rightarrow> (vx, - vz, vy))\<rparr>
         in Some (h(link this := lk5))))"

definition ODELink_setTorqueToODE :: "LinkHeap \<Rightarrow> ODELink \<Rightarrow> dxWorld \<Rightarrow> dxWorld" where
  "ODELink_setTorqueToODE h this W =
     (if isRotationalJoint (h (link this))
      then dJointAddForce (jointID this) (Link_u (h (link this))) W
      else if isSlideJoint (h (link this))
      then dJointAddForce (jointID this) (Link_u (h (link this))) W
      else W)"

definition ODELink_setVelocityToODE :: "LinkHeap \<Rightarrow> ODELink \<Rightarrow> dxWorld \<Rightarrow> dxWorld" where
  "ODELink_setVelocityToODE h this W =
     (if isRotationalJoint (h (link this))
      then dJointSetParam (jointID this) dParamVel (Link_dq (h (link this))) W
      else if isSlideJoint (h (link this))
      then dJointSetParam (jointID this) dParamVel (Link_dq (h (link this))) W
      else W)"

text \<open>The loops of \<open>ODEBody\<close> over its adapters, from index 0 (from 1 for the last two).\<close>

definition setKinematicStateToODE ::
  "Ext \<Rightarrow> LinkHeap \<Rightarrow> bool \<Rightarrow> ODEBody \<Rightarrow> dxWorld \<Rightarrow> dxWorld" where
  "setKinematicStateToODE ext h flip this W =
     (if \<not> flip then fold (ODELink_setKinematicStateToODE ext h) (odeLinks this) W
      else fold (ODELink_setKinematicStateToODEflip ext h) (odeLinks this) W)"

fun getKinematicStateFromODE_loop ::
  "bool \<Rightarrow> dxWorld \<Rightarrow> ODELink list \<Rightarrow> LinkHeap \<Rightarrow> LinkHeap option" where
  "getKinematicStateFromODE_loop flip W [] h = Some h"
| "getKinematicStateFromODE_loop flip W (ol # ols) h =
     (case (if \<not> flip then ODELink_getKinematicStateFromODE ol W h
            else ODELink_getKinematicStateFromODEflip ol W h) of
        None \<Rightarrow> None
      | Some h' \<Rightarrow> getKinematicStateFromODE_loop flip W ols h')"

definition getKinematicStateFromODE ::
  "bool \<Rightarrow> ODEBody \<Rightarrow> dxWorld \<Rightarrow> LinkHeap \<Rightarrow> LinkHeap option" where
  "getKinematicStateFromODE flip this W h =
     getKinematicStateFromODE_loop flip W (odeLinks this) h"

definition setTorqueToODE :: "LinkHeap \<Rightarrow> ODEBody \<Rightarrow> dxWorld \<Rightarrow> dxWorld" where
  "setTorqueToODE h this W = fold (ODELink_setTorqueToODE h) (drop 1 (odeLinks this)) W"

definition setVelocityToODE :: "LinkHeap \<Rightarrow> ODEBody \<Rightarrow> dxWorld \<Rightarrow> dxWorld" where
  "setVelocityToODE h this W = fold (ODELink_setVelocityToODE h) (drop 1 (odeLinks this)) W"

section \<open>ODEBody::createBody\<close>

text \<open>\<open>vector::resize\<close> on the vector of adapter pointers: new slots are null.\<close>

definition resize :: "nat \<Rightarrow> 'a option list \<Rightarrow> 'a option list" where
  "resize n xs = take n xs @ replicate (n - length xs) None"

text \<open>
  The loop that enters the adapters in \<open>geometryIdToLink\<close>, each at \<open>geometryId\<close> plus
  the index of its link. A write outside the vector is undefined in the source; the model
  leaves the vector as it is there.
\<close>

definition enterGeometryIdToLink ::
  "LinkHeap \<Rightarrow> nat \<Rightarrow> ODELink \<Rightarrow> ODELink option list \<Rightarrow> ODELink option list" where
  "enterGeometryIdToLink h gid odeLink xs =
     (let idx = int gid + Link_index (h (link odeLink))
      in if 0 \<le> idx \<and> idx < int (length xs) then xs[nat idx := Some odeLink] else xs)"

text \<open>
  \<open>ODEBody::createBody\<close>. \<open>addBodyToCollisionDetector\<close>, a helper outside the sources,
  adds the geometry of each link of the body to the external detector (the spec's
  collision-service interface) and returns the id of the first; a new space is a new
  handle. The loop-closure joints (\<open>setExtraJoints\<close>) and the feedback buffers
  of the force sensors are solver joints and buffers beside the adapters; their
  declarations are not among the sources and they are not part of the model.
\<close>

definition createBody ::
  "Ext \<Rightarrow> LinkHeap \<Rightarrow> ODESimulatorItemImpl \<times> ODEBody \<Rightarrow> ODESimulatorItemImpl \<times> ODEBody" where
  "createBody ext h st =
     (case st of (simImpl, this) \<Rightarrow>
       (let this1 = this\<lparr>body_worldID :=
                      (if isStaticModel (body this) then 0 else worldID simImpl)\<rparr>;
            (simImpl1, this2) =
              (if useWorldCollision simImpl then
                 (simImpl\<lparr>numGeometries :=
                    numGeometries simImpl + length (preorder (rootLink (body this1)))\<rparr>,
                  this1\<lparr>geometryId := numGeometries simImpl\<rparr>)
               else
                 (simImpl\<lparr>world := (world simImpl)\<lparr>nextHandle :=
                    Suc (nextHandle (world simImpl))\<rparr>\<rparr>,
                  this1\<lparr>body_spaceID := nextHandle (world simImpl)\<rparr>));
            k = length (odeLinks this2);
            (simImpl2, this3) =
              ODELink_new ext h None Zero3 (rootLink (body this2)) (simImpl1, this2);
            rootLink_bodyID = bodyID (odeLinks this3 ! k);
            W3 = setKinematicStateToODE ext h (flipYZ simImpl2) this3 (world simImpl2);
            simImpl3 = simImpl2\<lparr>world := W3\<rparr>;
            simImpl4 =
              (if useWorldCollision simImpl3 then
                 simImpl3\<lparr>geometryIdToLink :=
                   fold (enterGeometryIdToLink h (geometryId this3)) (odeLinks this3)
                     (resize (geometryId this3 + length (odeLinks this3))
                        (geometryIdToLink simImpl3))\<rparr>
               else simImpl3);
            W5 = (if is2Dmode simImpl4 \<and> body_worldID this3 \<noteq> 0 then
                    (case dJointCreate dJointTypePlane2D (world simImpl4) of
                       (planeJointID, W') \<Rightarrow> dJointAttach planeJointID rootLink_bodyID 0 W')
                  else world simImpl4);
            W6 = setTorqueToODE h this3 W5
        in (simImpl4\<lparr>world := W6\<rparr>, this3)))"

section \<open>The 2D alignment\<close>

fun qnorm :: "Quat \<Rightarrow> real" where
  "qnorm q = sqrt (qsquaredNorm q)"

fun qscale :: "real \<Rightarrow> Quat \<Rightarrow> Quat" where
  "qscale k (w, x, y, z) = (k * w, k * x, k * y, k * z)"

text \<open>
  \<open>ODEBody::alignToZAxisIn2Dmode\<close>. There is no result (\<open>None\<close>) for a body without
  adapters, for a root adapter without a solver body, and when the quaternion left after
  the two components are zeroed has norm 0, where the normalisation divides by zero.
\<close>

definition alignToZAxisIn2Dmode :: "Ext \<Rightarrow> ODEBody \<Rightarrow> dxWorld \<Rightarrow> dxWorld option" where
  "alignToZAxisIn2Dmode ext this W =
     (case odeLinks this of
        [] \<Rightarrow> None
      | front # rest \<Rightarrow>
          (if bodyID front = 0 then None
           else
             (let r = Quat_of_AngleAxis (pi / 2) (1, 0, 0);
                  q = body_q (bodies W (bodyID front));
                  q2 = (case qmul r q of (qw, qx, qy, qz) \<Rightarrow> (qw, 0, qy, 0))
              in if qnorm q2 = 0 then None
                 else
                   (let q2n = qscale (1 / qnorm q2) q2;
                        q3 = qmul (qinverse r) q2n;
                        W1 = dBodySetQuaternion ext (bodyID front) q3 W;
                        w = avel (bodies W1 (bodyID front))
                    in Some (dBodySetAngularVel (bodyID front)
                               (0, 0, snd (snd w)) W1)))))"

section \<open>Mecanum wheel settings\<close>

text \<open>
  The value of \<open>d\<close> that \<open>preserveMecanumWheelSetting\<close> stores for the link at position
  \<open>i\<close> of the \<open>links\<close> listing: 0 to begin with, and, when the \<open>barrelAngles\<close> listing is
  valid and has an entry at \<open>i\<close>, decided by that entry. \<open>toDouble\<close> may throw.
\<close>

definition barrelAngleSetting :: "ValueNode list option \<Rightarrow> nat \<Rightarrow> ValueError + real" where
  "barrelAngleSetting angles i =
     (case angles of
        None \<Rightarrow> Inr 0
      | Some as \<Rightarrow>
          (if length as > i then
             (case toDouble (as ! i) of
                Inl ex \<Rightarrow> Inl ex
              | Inr d2 \<Rightarrow>
                  (if d2 \<noteq> 0 then Inr (if \<bar>PI_2 - d2\<bar> < 0.00001 then 0 else d2)
                   else Inr PI_2))
           else Inr 0))"

text \<open>
  One round of the loop over the \<open>links\<close> listing. An exception of the value nodes is
  caught inside the round and a message is put out; the round then stores nothing.
\<close>

definition preserveMecanumWheel ::
  "LinkHeap \<Rightarrow> ODEBody \<Rightarrow> ValueNode list \<Rightarrow> ValueNode list option \<Rightarrow> nat
     \<Rightarrow> ODESimulatorItemImpl \<Rightarrow> ODESimulatorItemImpl" where
  "preserveMecanumWheel h odeBody ls angles i impl =
     (case toString (ls ! i) of
        Inl ex \<Rightarrow> impl
      | Inr s \<Rightarrow>
          (case Body_link h (body odeBody) s of
             None \<Rightarrow> impl
           | Some p \<Rightarrow>
               (if Link_jointType (h p) \<noteq> CRAWLER_JOINT then impl
                else
                  (case barrelAngleSetting angles i of
                     Inl ex \<Rightarrow> impl
                   | Inr d \<Rightarrow>
                       (case find (\<lambda>ol. p = link ol) (odeLinks odeBody) of
                          None \<Rightarrow> impl
                        | Some ol \<Rightarrow>
                            impl\<lparr>mecanumWheelSetting :=
                              map_insert (bodyID ol) d (mecanumWheelSetting impl)\<rparr>)))))"

definition preserveMecanumWheelSetting ::
  "LinkHeap \<Rightarrow> ODEBody \<Rightarrow> ODESimulatorItemImpl \<Rightarrow> ODESimulatorItemImpl" where
  "preserveMecanumWheelSetting h odeBody impl =
     (case info_mecanumWheelSetting (body odeBody) of
        None \<Rightarrow> impl
      | Some m \<Rightarrow>
          (case info_links m of
             None \<Rightarrow> impl
           | Some ls \<Rightarrow>
               (if length ls < 1 then impl
                else fold (preserveMecanumWheel h odeBody ls (info_barrelAngles m))
                       [0 ..< length ls] impl)))"

text \<open>
  \<open>getMecanumWheelSetting\<close> with a non-null \<open>angle\<close>: the return value and the value
  left in \<open>*angle\<close>.
\<close>

definition getMecanumWheelSetting :: "ODESimulatorItemImpl \<Rightarrow> dBodyID \<Rightarrow> bool \<times> real" where
  "getMecanumWheelSetting impl dBdyId =
     (case map_of (mecanumWheelSetting impl) dBdyId of
        Some x \<Rightarrow> (True, x)
      | None \<Rightarrow> (False, 0))"

section \<open>ODESimulatorItemImpl::addBody\<close>

text \<open>
  The state of the model that \<open>addBody\<close> resets first: the root link's velocities and
  accelerations, then \<open>u\<close>, \<open>dq\<close> and \<open>ddq\<close> of \<open>joint(i)\<close> for every \<open>i\<close> below
  \<open>numJoints()\<close>.
\<close>

definition resetRootLink :: "Body \<Rightarrow> LinkHeap \<Rightarrow> LinkHeap" where
  "resetRootLink bd h =
     h(rootOf (rootLink bd) :=
         (h (rootOf (rootLink bd)))
           \<lparr>Link_v := Zero3, Link_w := Zero3, Link_dv := Zero3, Link_dw := Zero3\<rparr>)"

definition resetJoint :: "Body \<Rightarrow> nat \<Rightarrow> LinkHeap \<Rightarrow> LinkHeap" where
  "resetJoint bd i h =
     h(joint bd i := (h (joint bd i))\<lparr>Link_dq := 0, Link_ddq := 0, Link_u := 0\<rparr>)"

definition resetJoints :: "Body \<Rightarrow> LinkHeap \<Rightarrow> LinkHeap" where
  "resetJoints bd h = fold (resetJoint bd) [0 ..< numJoints bd] h"

text \<open>
  \<open>addBody\<close>: the resets, \<open>clearExternalForces\<close>, \<open>calcForwardKinematics\<close>, then
  \<open>createBody\<close> and the mecanum wheel settings. The registration of vacuum grippers and
  nail drivers that follows reads device classes that are not among the sources and is
  not part of the model.
\<close>

definition addBody ::
  "Ext \<Rightarrow> ODEBody \<Rightarrow> LinkHeap \<times> ODESimulatorItemImpl
     \<Rightarrow> (LinkHeap \<times> ODESimulatorItemImpl) \<times> ODEBody" where
  "addBody ext odeBody st =
     (case st of (h, impl) \<Rightarrow>
        (let h1 = resetRootLink (body odeBody) h;
             h2 = resetJoints (body odeBody) h1;
             h3 = clearExternalForces (body odeBody) h2;
             h4 = calcForwardKinematics ext (body odeBody) h3;
             (impl1, odeBody1) = createBody ext h4 (impl, odeBody);
             impl2 = preserveMecanumWheelSetting h4 odeBody1 impl1
         in ((h4, impl2), odeBody1)))"

section \<open>Contacts\<close>

text \<open>
  The tracked link of a pair of bodies as \<open>nearCallback\<close> finds it: the link, the sign, and
  the mecanum wheel setting (\<open>isMecanumWheel\<close>, \<open>barrelAngle\<close>) of the body it was found
  under. The second body is looked up after the first and overrides it.
\<close>

definition findCrawlerLink ::
  "ODESimulatorItemImpl \<Rightarrow> dBodyID \<Rightarrow> dBodyID \<Rightarrow> LinkPtr option \<times> real \<times> bool \<times> real" where
  "findCrawlerLink impl body1ID body2ID =
     (let s0 = (None, 1, False, 0) in
        if crawlerLinks impl \<noteq> [] then
          (let s1 = (case map_of (crawlerLinks impl) body1ID of
                       Some l \<Rightarrow> (Some l, fst (snd s0), getMecanumWheelSetting impl body1ID)
                     | None \<Rightarrow> s0)
           in (case map_of (crawlerLinks impl) body2ID of
                 Some l \<Rightarrow> (Some l, - 1, getMecanumWheelSetting impl body2ID)
               | None \<Rightarrow> s1))
        else s0)"

text \<open>The same in \<open>collisionCallback\<close>, which has no mecanum wheel setting.\<close>

definition findCrawlerLink_collision ::
  "ODESimulatorItemImpl \<Rightarrow> dBodyID \<Rightarrow> dBodyID \<Rightarrow> LinkPtr option \<times> real" where
  "findCrawlerLink_collision impl body1ID body2ID =
     (let s0 = (None, 1) in
        if crawlerLinks impl \<noteq> [] then
          (let s1 = (case map_of (crawlerLinks impl) body1ID of
                       Some l \<Rightarrow> (Some l, snd s0)
                     | None \<Rightarrow> s0)
           in (case map_of (crawlerLinks impl) body2ID of
                 Some l \<Rightarrow> (Some l, - 1)
               | None \<Rightarrow> s1))
        else s0)"

definition isotropic :: "real \<Rightarrow> dContact \<Rightarrow> dContact" where
  "isotropic fr c = c\<lparr>surface := (surface c)\<lparr>mode := {dContactApprox1}, mu := fr\<rparr>\<rparr>"

definition anisotropicMode :: "dContactFlag set" where
  "anisotropicMode =
     {dContactFDir1, dContactMotion1, dContactMu2, dContactApprox1_2, dContactApprox1_1}"

text \<open>
  The rolling direction \<open>dir\<close> of a tracked contact in \<open>nearCallback\<close>: the track axis
  crossed with the contact normal and, for a mecanum wheel, multiplied by the transposed
  rotation about the normal by the barrel angle.
\<close>

definition rollingDirection :: "bool \<Rightarrow> real \<Rightarrow> Vector3 \<Rightarrow> Vector3 \<Rightarrow> Vector3" where
  "rollingDirection isMecanumWheel barrelAngle ax n =
     (let dir = cross ax n
      in if isMecanumWheel
         then mvmul (transpose3 (AngleAxis_toRotationMatrix barrelAngle n)) dir
         else dir)"

text \<open>
  The body of the loop over the contacts in \<open>nearCallback\<close>: the contact as it is handed
  to \<open>dJointCreateContact\<close>, or \<open>None\<close> when the round ends with \<open>continue\<close>.
\<close>

definition nearContact ::
  "ODESimulatorItemImpl \<Rightarrow> LinkHeap \<Rightarrow> LinkPtr option \<times> real \<times> bool \<times> real \<Rightarrow> dContact
     \<Rightarrow> dContact option" where
  "nearContact impl h found c =
     (case found of (crawlerlink, sign, isMecanumWheel, barrelAngle) \<Rightarrow>
        (case crawlerlink of
           None \<Rightarrow> Some (isotropic (friction impl) c)
         | Some cl \<Rightarrow>
             (if depth (geom c) > 0.001 then None
              else
                (let ax = mvmul (Link_R (h cl)) (Link_a (h cl));
                     n = normal (geom c);
                     dir = rollingDirection isMecanumWheel barrelAngle ax n
                 in if norm3 dir < 0.00001 then Some (isotropic (friction impl) c)
                    else
                      Some (c\<lparr>fdir1 := normalize3 (smul sign dir),
                              surface := (surface c)
                                \<lparr>mode := anisotropicMode,
                                 mu := friction impl,
                                 mu2 := 0.5,
                                 motion1 :=
                                   (if Link_jointType (h cl) = PSEUDO_CONTINUOUS_TRACK
                                    then Link_dq (h cl) else Link_u (h cl))\<rparr>\<rparr>)))))"

text \<open>The body of the loop over the collisions in \<open>collisionCallback\<close>.\<close>

definition collisionContact ::
  "Ext \<Rightarrow> ODESimulatorItemImpl \<Rightarrow> LinkHeap \<Rightarrow> LinkPtr option \<times> real \<Rightarrow> Collision
     \<Rightarrow> dContact option" where
  "collisionContact ext impl h found col =
     (case found of (crawlerlink, sign) \<Rightarrow>
        (let c = (uninitialized ext)
                   \<lparr>geom := \<lparr>pos = point col, normal = smul (- 1) (col_normal col),
                              depth = col_depth col\<rparr>\<rparr>
         in (case crawlerlink of
               None \<Rightarrow> Some (isotropic (friction impl) c)
             | Some cl \<Rightarrow>
                 (if depth (geom c) > 0.001 then None
                  else
                    (let ax = mvmul (Link_R (h cl)) (Link_a (h cl));
                         n = normal (geom c);
                         dir = cross ax n
                     in if norm3 dir < 0.00001 then Some (isotropic (friction impl) c)
                        else
                          Some (c\<lparr>fdir1 := normalize3 (smul sign dir),
                                  surface := (surface c)
                                    \<lparr>mode := anisotropicMode,
                                     mu := friction impl,
                                     mu2 := 0.5,
                                     motion1 := Link_u (h cl)\<rparr>\<rparr>))))))"

text \<open>
  The loop itself: every contact that is not skipped becomes a contact joint of the group,
  attached to the two bodies.
\<close>

fun createContacts ::
  "('c \<Rightarrow> dContact option) \<Rightarrow> dBodyID \<Rightarrow> dBodyID \<Rightarrow> 'c list \<Rightarrow> dxJointContact list
     \<Rightarrow> dxJointContact list" where
  "createContacts f body1ID body2ID [] grp = grp"
| "createContacts f body1ID body2ID (c # cs) grp =
     (case f c of
        None \<Rightarrow> createContacts f body1ID body2ID cs grp
      | Some c' \<Rightarrow>
          createContacts f body1ID body2ID cs
            (grp @ [\<lparr>contact = c', contact_body1 = body1ID, contact_body2 = body2ID\<rparr>]))"

definition MaxNumContacts :: nat where
  "MaxNumContacts = 100"

text \<open>
  \<open>nearCallback\<close> on a pair of geometries that are not spaces, given the bodies of the two
  geometries and the contacts that \<open>dCollide\<close> finds (at most \<open>MaxNumContacts\<close> are
  taken). A pair with a space is expanded by the solver into such pairs. The vacuum
  gripper's hook may claim the pair; the nail driver's hook adds no contact joint.
\<close>

definition nearCallback ::
  "Ext \<Rightarrow> LinkHeap \<Rightarrow> dBodyID \<times> dBodyID \<times> dContact list \<Rightarrow> ODESimulatorItemImpl
     \<Rightarrow> ODESimulatorItemImpl" where
  "nearCallback ext h pair impl =
     (case pair of (body1ID, body2ID, cs) \<Rightarrow>
        (let contacts = take MaxNumContacts cs in
           if length contacts > 0 then
             (let found = findCrawlerLink impl body1ID body2ID in
                if isContactProcessingSkip ext body1ID body2ID contacts then impl
                else impl\<lparr>contactJointGroup :=
                       createContacts (nearContact impl h found) body1ID body2ID contacts
                         (contactJointGroup impl)\<rparr>)
           else impl))"

text \<open>
  \<open>collisionCallback\<close>. A geometry id outside \<open>geometryIdToLink\<close>, or one whose slot is
  null, is undefined in the source; the model creates nothing there.
\<close>

definition collisionCallback ::
  "Ext \<Rightarrow> LinkHeap \<Rightarrow> CollisionPair \<Rightarrow> ODESimulatorItemImpl \<Rightarrow> ODESimulatorItemImpl" where
  "collisionCallback ext h collisionPair impl =
     (if geometryId0 collisionPair < length (geometryIdToLink impl)
         \<and> geometryId1 collisionPair < length (geometryIdToLink impl) then
        (case (geometryIdToLink impl ! geometryId0 collisionPair,
               geometryIdToLink impl ! geometryId1 collisionPair) of
           (Some link1, Some link2) \<Rightarrow>
             (let body1ID = bodyID link1;
                  body2ID = bodyID link2;
                  found = findCrawlerLink_collision impl body1ID body2ID
              in impl\<lparr>contactJointGroup :=
                   createContacts (collisionContact ext impl h found) body1ID body2ID
                     (collisions collisionPair) (contactJointGroup impl)\<rparr>)
         | _ \<Rightarrow> impl)
      else impl)"

section \<open>ODESimulatorItemImpl::stepSimulation\<close>

text \<open>
  The phases of \<open>stepSimulation\<close>, in the order of the source. First every active body
  gets its virtual joint forces and hands its velocity or torque targets to the solver.
\<close>

definition step_actuate ::
  "Ext \<Rightarrow> ODEBody list \<Rightarrow> LinkHeap \<times> ODESimulatorItemImpl \<Rightarrow> LinkHeap \<times> ODESimulatorItemImpl" where
  "step_actuate ext activeSimBodies st =
     fold (\<lambda>odeBody (h, impl).
             (let h1 = setVirtualJointForces ext (body odeBody) h
              in (h1, impl\<lparr>world :=
                    (if velocityMode impl then setVelocityToODE h1 odeBody (world impl)
                     else setTorqueToODE h1 odeBody (world impl))\<rparr>)))
       activeSimBodies st"

text \<open>\<open>dJointGroupEmpty(contactJointGroupID)\<close>.\<close>

definition dJointGroupEmpty :: "ODESimulatorItemImpl \<Rightarrow> ODESimulatorItemImpl" where
  "dJointGroupEmpty impl = impl\<lparr>contactJointGroup := []\<rparr>"

text \<open>
  The collision phase: \<open>collisionCallback\<close> on every pair that the external detector
  reports, or \<open>nearCallback\<close> on every leaf pair of the solver's space.
\<close>

definition step_collide ::
  "Ext \<Rightarrow> LinkHeap \<Rightarrow> ODESimulatorItemImpl \<Rightarrow> ODESimulatorItemImpl" where
  "step_collide ext h impl =
     (if useWorldCollision impl
      then fold (collisionCallback ext h) (detectCollisions ext h) impl
      else fold (nearCallback ext h) (dSpaceCollide ext (world impl)) impl)"

text \<open>\<open>dWorldQuickStep\<close> or \<open>dWorldStep\<close>.\<close>

definition step_integrate :: "Ext \<Rightarrow> ODESimulatorItemImpl \<Rightarrow> ODESimulatorItemImpl" where
  "step_integrate ext impl =
     impl\<lparr>world := dWorldStep ext (stepMode_iterative impl) (timeStep impl)
                      (contactJointGroup impl) (world impl)\<rparr>"

text \<open>
  After the integration, for every active body: the 2D alignment in 2D mode, then the
  kinematic state is read back. (The force, gyro and acceleration sensors that are
  updated here belong to classes that are not among the sources.)
\<close>

fun step_post ::
  "Ext \<Rightarrow> ODEBody list \<Rightarrow> LinkHeap \<times> ODESimulatorItemImpl
     \<Rightarrow> (LinkHeap \<times> ODESimulatorItemImpl) option" where
  "step_post ext [] st = Some st"
| "step_post ext (odeBody # rest) (h, impl) =
     (case (if is2Dmode impl then alignToZAxisIn2Dmode ext odeBody (world impl)
            else Some (world impl)) of
        None \<Rightarrow> None
      | Some W \<Rightarrow>
          (case getKinematicStateFromODE (flipYZ impl) odeBody W h of
             None \<Rightarrow> None
           | Some h' \<Rightarrow> step_post ext rest (h', impl\<lparr>world := W\<rparr>)))"

text \<open>The state in which the collision phase of a step begins.\<close>

definition beforeCollide ::
  "Ext \<Rightarrow> ODEBody list \<Rightarrow> LinkHeap \<times> ODESimulatorItemImpl \<Rightarrow> LinkHeap \<times> ODESimulatorItemImpl" where
  "beforeCollide ext activeSimBodies st =
     (case step_actuate ext activeSimBodies st of (h, impl) \<Rightarrow> (h, dJointGroupEmpty impl))"

definition stepSimulation ::
  "Ext \<Rightarrow> ODEBody list \<Rightarrow> LinkHeap \<times> ODESimulatorItemImpl
     \<Rightarrow> (LinkHeap \<times> ODESimulatorItemImpl) option" where
  "stepSimulation ext activeSimBodies st =
     (case beforeCollide ext activeSimBodies st of (h, impl) \<Rightarrow>
        step_post ext activeSimBodies (h, step_integrate ext (step_collide ext h impl)))"

section \<open>NailedObjectManager\<close>

record NailedObject =
  objId :: dBodyID
  nailJointID :: dJointID
  maxFasteningForce :: real

definition getBodyID :: "NailedObject \<Rightarrow> dBodyID" where
  "getBodyID obj = objId obj"

text \<open>
  \<open>NailedObjectMap\<close> is a \<open>std::map\<close> from body handle to \<open>NailedObjectPtr\<close>: an
  association list read with \<open>map_of\<close>. A \<open>NailedObjectPtr\<close> returned by the manager is
  an option, \<open>None\<close> for the null pointer.
\<close>

type_synonym NailedObjectMap = "(dBodyID \<times> NailedObject) list"

record NailedObjectManager =
  objectMap :: NailedObjectMap

definition addObject :: "NailedObject \<Rightarrow> NailedObjectManager \<Rightarrow> NailedObjectManager" where
  "addObject obj mgr = mgr\<lparr>objectMap := map_insert (getBodyID obj) obj (objectMap mgr)\<rparr>"

text \<open>
  \<open>find\<close> and \<open>get\<close> are member functions that are not \<open>const\<close>: each returns its result
  together with the manager as it leaves it.
\<close>

definition NailedObjectManager_find ::
  "dBodyID \<Rightarrow> NailedObjectManager \<Rightarrow> bool \<times> NailedObjectManager" where
  "NailedObjectManager_find bID mgr =
     (case map_of (objectMap mgr) bID of
        Some p \<Rightarrow> (True, mgr)
      | None \<Rightarrow> (False, mgr))"

definition NailedObjectManager_get ::
  "dBodyID \<Rightarrow> NailedObjectManager \<Rightarrow> NailedObject option \<times> NailedObjectManager" where
  "NailedObjectManager_get bID mgr =
     (case map_of (objectMap mgr) bID of
        Some p \<Rightarrow> (Some p, mgr)
      | None \<Rightarrow> (None, mgr))"

section \<open>Auxiliary notions of the proofs\<close>

text \<open>
  The transfer of one link in either convention, and the relation of two solver bodies
  that hold the same rotation, position and velocities.
\<close>

definition pushLink :: "Ext \<Rightarrow> LinkHeap \<Rightarrow> bool \<Rightarrow> ODELink \<Rightarrow> dxWorld \<Rightarrow> dxWorld" where
  "pushLink ext h flip =
     (if \<not> flip then ODELink_setKinematicStateToODE ext h
      else ODELink_setKinematicStateToODEflip ext h)"

definition pullLink :: "bool \<Rightarrow> ODELink \<Rightarrow> dxWorld \<Rightarrow> LinkHeap \<Rightarrow> LinkHeap option" where
  "pullLink flip =
     (if \<not> flip then ODELink_getKinematicStateFromODE else ODELink_getKinematicStateFromODEflip)"

definition sameKinematicState :: "dxBody \<Rightarrow> dxBody \<Rightarrow> bool" where
  "sameKinematicState b b' =
     (posr_R b = posr_R b' \<and> posr_pos b = posr_pos b' \<and> lvel b = lvel b' \<and> avel b = avel b')"



section \<open>Example data\<close>

text \<open>Concrete inputs at which the properties below are evaluated.\<close>

definition ex_contact :: dContact where
  "ex_contact =
     \<lparr>surface = \<lparr>mode = {}, mu = 0, mu2 = 0, motion1 = 0\<rparr>,
      geom = \<lparr>pos = (0, 0, 0), normal = (0, 0, 1), depth = 0\<rparr>,
      fdir1 = (0, 0, 0)\<rparr>"

definition ex_world :: dxWorld where
  "ex_world =
     \<lparr>bodies = (\<lambda>_. \<lparr>body_data = 0, posr_pos = Zero3, posr_R = Identity3,
                         body_q = (1, 0, 0, 0), lvel = Zero3, avel = Zero3,
                         body_kinematic = False\<rparr>),
      dxjoints = (\<lambda>_. \<lparr>joint_type = dJointTypeFixed, node0_body = 0, node1_body = 0,
                          joint_anchor = Zero3, joint_axis = Zero3,
                          joint_params = (\<lambda>_. None), joint_added = 0, joint_position = 0,
                          joint_rate = 0\<rparr>),
      geoms = (\<lambda>_. \<lparr>geom_pos = Zero3, geom_R = Identity3\<rparr>),
      nextHandle = 1\<rparr>"

text \<open>
  Collaborators that do nothing, with a solver space that reports one leaf pair, bodies 1
  and 2 with one contact.
\<close>

definition ex_ext :: Ext where
  "ex_ext =
     \<lparr>dQfromR = (\<lambda>_. (1, 0, 0, 0)),
      dRfromQ = (\<lambda>_. Identity3),
      extractGeometry = (\<lambda>l b W. ([], [], W)),
      calcForwardKinematics = (\<lambda>b h. h),
      setVirtualJointForces = (\<lambda>b h. h),
      dSpaceCollide = (\<lambda>W. [(1, 2, [ex_contact])]),
      detectCollisions = (\<lambda>h. []),
      isContactProcessingSkip = (\<lambda>b1 b2 cs. False),
      uninitialized = ex_contact,
      dWorldStep = (\<lambda>quick dt grp W. W)\<rparr>"

text \<open>
  A link heap in which the link at address \<open>l\<close> has index \<open>l\<close>; every link is a
  crawler with axis \<open>y\<close>, command \<open>u = 2\<close> and joint velocity \<open>dq = 3\<close>. The link at
  address 0 is named \<open>BASE\<close>, the others \<open>WHEEL\<close>.
\<close>

definition ex_link :: "LinkPtr \<Rightarrow> Link" where
  "ex_link l =
     \<lparr>Link_index = int l, Link_name = (if l = 0 then ''BASE'' else ''WHEEL''),
      Link_jointType = CRAWLER_JOINT,
      Link_p = (1, 2, 3), Link_R = Identity3, Link_v = (4, 5, 6), Link_w = (7, 8, 9),
      Link_dv = Zero3, Link_dw = Zero3, Link_b = Zero3, Link_c = (1, 1, 1),
      Link_a = (0, 1, 0), Link_d = (0, 1, 0), Link_q = 0, Link_dq = 3, Link_ddq = 0,
      Link_u = 2, Link_q_upper = 1, Link_q_lower = - 1, Link_f_ext = (1, 0, 0),
      Link_tau_ext = (0, 1, 0)\<rparr>"

text \<open>
  The same links after they have moved: position, rotation and velocities differ, the
  centres of mass do not.
\<close>

definition ex_link_moved :: "LinkPtr \<Rightarrow> Link" where
  "ex_link_moved l =
     (ex_link l)\<lparr>Link_p := (0, 0, 0), Link_R := flippedIdentity, Link_v := (1, 1, 1),
                Link_w := (0, 0, 0)\<rparr>"

definition ex_tree :: LinkTree where
  "ex_tree = LinkNode 0 [LinkNode 1 [LinkNode 2 []], LinkNode 3 []]"

definition ex_body :: Body where
  "ex_body =
     \<lparr>rootLink = ex_tree, joints = [1, 2, 3], isStaticModel = False,
      info_mecanumWheelSetting = None\<rparr>"

definition ex_impl :: ODESimulatorItemImpl where
  "ex_impl =
     \<lparr>flipYZ = False, worldID = 1, spaceID = 1, world = ex_world, contactJointGroup = [],
      timeStep = 1 / 1000, crawlerLinks = [(1, 1)], geometryIdToLink = [],
      numGeometries = 0, stepMode_iterative = True, friction = 1, isJointLimitMode = False,
      is2Dmode = False, useWorldCollision = False, velocityMode = False,
      mecanumWheelSetting = []\<rparr>"

text \<open>
  A contact of the tracked body 1 that is too deep and whose normal is parallel to the
  track axis; a shallow contact with the same normal; an adapter of the tracked link; a
  pair of the external detector with a deep and a shallow collision; the simulator in
  the external-detector mode; the simulator with a stored barrel rotation of
  \<open>PI_2\<close> for body 1; a body whose \<open>info\<close> configures the link \<open>WHEEL\<close> as a
  mecanum wheel with the given \<open>barrelAngles\<close> listing.
\<close>

definition ex_deep :: dContact where
  "ex_deep = ex_contact\<lparr>geom := \<lparr>pos = (0, 0, 0), normal = (0, 1, 0), depth = 0.002\<rparr>\<rparr>"


definition ex_odeLink :: "dBodyID \<Rightarrow> ODELink" where
  "ex_odeLink b = \<lparr>link = 1, bodyID = b, jointID = 0, geomID = [], offsetMap = [], motorID = 0\<rparr>"

definition ex_pair :: CollisionPair where
  "ex_pair =
     \<lparr>geometryId0 = 0, geometryId1 = 1,
      collisions = [\<lparr>point = (0, 0, 0), col_normal = (0, 0, - 1), col_depth = 0.002\<rparr>,
                    \<lparr>point = (0, 0, 0), col_normal = (0, 0, - 1), col_depth = 0\<rparr>]\<rparr>"

definition ex_impl_world :: ODESimulatorItemImpl where
  "ex_impl_world =
     ex_impl\<lparr>useWorldCollision := True,
             geometryIdToLink := [Some (ex_odeLink 1), Some (ex_odeLink 2)]\<rparr>"


definition ex_body_wheel :: "ValueNode list option \<Rightarrow> ODEBody" where
  "ex_body_wheel angles =
     \<lparr>body = ex_body\<lparr>info_mecanumWheelSetting :=
               Some \<lparr>info_links = Some [ScalarNode ''WHEEL'' None],
                     info_barrelAngles = angles\<rparr>\<rparr>,
      odeLinks = [ex_odeLink 1], body_worldID = 1, body_spaceID = 0, geometryId = 0\<rparr>"

text \<open>
  A body with two adapters, for the links 1 and 2 with the solver bodies 1 and 2; a
  solver state in which body 1 spins with angular velocity \<open>(7, 8, 9)\<close>.
\<close>

definition ex_body_two :: ODEBody where
  "ex_body_two =
     \<lparr>body = ex_body,
      odeLinks = [\<lparr>link = 1, bodyID = 1, jointID = 0, geomID = [], offsetMap = [], motorID = 0\<rparr>,
                  \<lparr>link = 2, bodyID = 2, jointID = 0, geomID = [], offsetMap = [], motorID = 0\<rparr>],
      body_worldID = 1, body_spaceID = 0, geometryId = 0\<rparr>"



section \<open>Properties\<close>

subsection \<open>Helper lemmas\<close>

lemma map_of_eq_None_keys: "(map_of m k = None) = (k \<notin> fst ` set m)"
  by (simp add: map_of_eq_None_iff)

lemma createContacts_eq:
  "createContacts f b1 b2 cs grp =
     grp @ map (\<lambda>c. \<lparr>contact = c, contact_body1 = b1, contact_body2 = b2\<rparr>) (List.map_filter f cs)"
  by (induction cs arbitrary: grp) (simp_all add: map_filter_simps split: option.splits)

lemma group_world_swap:
  "(impl\<lparr>contactJointGroup := g\<rparr>)\<lparr>world := X\<rparr> = (impl\<lparr>world := X\<rparr>)\<lparr>contactJointGroup := g\<rparr>"
  by simp

lemma step_actuate_group:
  "step_actuate ext bs (h, impl\<lparr>contactJointGroup := g\<rparr>) =
     (case step_actuate ext bs (h, impl) of (h', impl') \<Rightarrow> (h', impl'\<lparr>contactJointGroup := g\<rparr>))"
proof (induction bs arbitrary: h impl)
  case Nil
  show ?case by (simp add: step_actuate_def)
next
  case (Cons b bs)
  have step: "step_actuate ext (b # bs) (h0, i0) =
      step_actuate ext bs
        (setVirtualJointForces ext (body b) h0,
         i0\<lparr>world := (if velocityMode i0
                        then setVelocityToODE (setVirtualJointForces ext (body b) h0) b (world i0)
                        else setTorqueToODE (setVirtualJointForces ext (body b) h0) b (world i0))\<rparr>)"
    for h0 i0
    by (simp add: step_actuate_def Let_def)
  show ?case
  proof (cases "velocityMode impl")
    case True
    then show ?thesis
      using Cons.IH [of "setVirtualJointForces ext (body b) h"
        "impl\<lparr>world := setVelocityToODE (setVirtualJointForces ext (body b) h) b (world impl)\<rparr>"]
      by (simp add: step group_world_swap del: ODESimulatorItemImpl.simps)
  next
    case False
    then show ?thesis
      using Cons.IH [of "setVirtualJointForces ext (body b) h"
        "impl\<lparr>world := setTorqueToODE (setVirtualJointForces ext (body b) h) b (world impl)\<rparr>"]
      by (simp add: step group_world_swap del: ODESimulatorItemImpl.simps)
  qed
qed

lemma beforeCollide_group:
  "beforeCollide ext bs (h, impl\<lparr>contactJointGroup := g\<rparr>) = beforeCollide ext bs (h, impl)"
  by (simp add: beforeCollide_def step_actuate_group dJointGroupEmpty_def split: prod.splits)

lemma step_post_group:
  "step_post ext bs st = Some st' \<Longrightarrow> contactJointGroup (snd st') = contactJointGroup (snd st)"
proof (induction bs arbitrary: st)
  case Nil
  then show ?case by simp
next
  case (Cons b bs)
  obtain h impl where st: "st = (h, impl)" by (cases st)
  from Cons.prems show ?case
    unfolding st
    by (auto split: option.splits if_splits dest!: Cons.IH)
qed

lemma fold_resetJoint:
  "fold (resetJoint b) js h l =
     (if l \<in> joint b ` set js then (h l)\<lparr>Link_dq := 0, Link_ddq := 0, Link_u := 0\<rparr> else h l)"
  by (induction js arbitrary: h) (auto simp: resetJoint_def)

lemma resetJoints_at:
  "resetJoints b h l =
     (if l \<in> joint b ` {..< numJoints b} then (h l)\<lparr>Link_dq := 0, Link_ddq := 0, Link_u := 0\<rparr>
      else h l)"
  by (simp add: resetJoints_def fold_resetJoint lessThan_atLeast0)

lemma createLinkBody_link:
  "link (fst (createLinkBody ext h parent og this simImpl)) = link this"
  by (simp add: createLinkBody_def Let_def split: prod.splits JointType.splits)

lemma createGeometry_link:
  "link (fst (createGeometry ext this simImpl)) = link this"
  by (simp add: createGeometry_def split: prod.splits)

lemma createLinkBody_linkD:
  "createLinkBody ext h parent og this simImpl = (x, y) \<Longrightarrow> link x = link this"
  using createLinkBody_link [of ext h parent og this simImpl] by simp

lemma createGeometry_linkD:
  "createGeometry ext this simImpl = (x, y) \<Longrightarrow> link x = link this"
  using createGeometry_link [of ext this simImpl] by simp

lemma ODELink_new_links:
  "map link (odeLinks (snd (ODELink_new ext h parent og t (simImpl, ob)))) =
     map link (odeLinks ob) @ preorder t"
proof (induction t arbitrary: parent og simImpl ob)
  case (LinkNode l cs)
  have children:
    "map link (odeLinks (snd (fold (\<lambda>child. ODELink_new ext h p og' child) cs' st))) =
       map link (odeLinks (snd st)) @ concat (map preorder cs')"
    if "set cs' \<subseteq> set cs" for cs' p og' st
    using that
  proof (induction cs' arbitrary: st)
    case Nil
    then show ?case by simp
  next
    case (Cons c cs')
    obtain si ob' where st: "st = (si, ob')" by (cases st)
    from Cons.prems have c: "c \<in> set cs" and rest: "set cs' \<subseteq> set cs" by auto
    show ?case
      by (simp add: st Cons.IH [OF rest] LinkNode.IH [OF c])
  qed
  show ?case
    by (simp add: Let_def children createLinkBody_link createGeometry_link
        split: prod.splits if_splits)
      (auto dest!: createLinkBody_linkD createGeometry_linkD)
qed


lemma ODELink_new_linksD:
  "ODELink_new ext h parent og t (simImpl, ob) = (x, y) \<Longrightarrow>
     map link (odeLinks y) = map link (odeLinks ob) @ preorder t"
  using ODELink_new_links [of ext h parent og t simImpl ob] by simp

lemma createBody_links:
  "map link (odeLinks (snd (createBody ext h (impl, ob)))) =
     map link (odeLinks ob) @ preorder (rootLink (body ob))"
  by (auto simp: createBody_def Let_def split: prod.splits dest!: ODELink_new_linksD)

lemma index_aligned_iff:
  assumes "map link ols = pre"
  shows "(\<forall>i < length ols. Link_index (h (link (ols ! i))) = int i) =
         (map (\<lambda>l. Link_index (h l)) pre = map int [0 ..< length pre])"
  unfolding assms [symmetric] by (subst list_eq_iff_nth_eq) auto

lemma ex_step:
  "map_option (\<lambda>st. map contact_body1 (contactJointGroup (snd st)))
     (stepSimulation ex_ext [] (ex_link, ex_impl)) = Some [1]"
  by (simp add: stepSimulation_def beforeCollide_def step_actuate_def dJointGroupEmpty_def
      step_collide_def step_integrate_def nearCallback_def MaxNumContacts_def
      findCrawlerLink_def getMecanumWheelSetting_def nearContact_def rollingDirection_def
      ex_ext_def ex_impl_def ex_contact_def ex_link_def Identity3_def norm3_def squaredNorm_def
      isotropic_def Let_def)

lemma rotation_transposed_apply:
  "mvmul (transpose3 (AngleAxis_toRotationMatrix ang n)) d =
     vadd (vadd (smul (cos ang) d) (smul (- sin ang) (cross n d)))
       (smul ((1 - cos ang) * dot n d) n)"
  by (cases n rule: prod_cases3; cases d rule: prod_cases3)
    (simp add: Let_def algebra_simps)

lemma dot_cross_right: "dot n (cross a n) = 0"
  by (cases n rule: prod_cases3; cases a rule: prod_cases3) (simp add: algebra_simps)




lemma smul_zero: "smul 0 v = Zero3"
  by (cases v rule: prod_cases3) (simp add: Zero3_def)

lemma vadd_Zero3: "vadd v Zero3 = v"
  by (cases v rule: prod_cases3) (simp add: Zero3_def)

lemma rollingDirection_rotated:
  "rollingDirection True ang ax n =
     vadd (smul (cos ang) (cross ax n)) (smul (- sin ang) (cross n (cross ax n)))"
  by (simp add: rollingDirection_def Let_def rotation_transposed_apply dot_cross_right
      smul_zero vadd_Zero3)



lemma rollingDirection_zero: "rollingDirection True 0 ax n = cross ax n"
  by (cases "cross ax n" rule: prod_cases3)
    (simp add: rollingDirection_rotated smul_zero vadd_Zero3)

lemma rollingDirection_half_pi: "rollingDirection True PI_2 ax n = cross (cross ax n) n"
  by (cases ax rule: prod_cases3; cases n rule: prod_cases3)
    (simp add: rollingDirection_rotated PI_2_def)

lemma squaredNorm_zero_iff: "(squaredNorm v = 0) = (v = Zero3)"
  by (cases v rule: prod_cases3)
    (auto simp: squaredNorm_def Zero3_def add_nonneg_eq_0_iff)

lemma cross_right_differs:
  assumes "d \<noteq> Zero3"
  shows "cross d n \<noteq> d"
proof
  assume eq: "cross d n = d"
  have "dot d (cross d n) = 0"
    by (cases n rule: prod_cases3; cases d rule: prod_cases3) (simp add: algebra_simps)
  with eq have "squaredNorm d = 0" by (simp add: squaredNorm_def)
  with assms show False by (simp add: squaredNorm_zero_iff)
qed




lemma findCrawlerLink_eq:
  "findCrawlerLink impl b1 b2 =
     (case map_of (crawlerLinks impl) b2 of
        Some l \<Rightarrow> (Some l, - 1, getMecanumWheelSetting impl b2)
      | None \<Rightarrow>
          (case map_of (crawlerLinks impl) b1 of
             Some l \<Rightarrow> (Some l, 1, getMecanumWheelSetting impl b1)
           | None \<Rightarrow> (None, 1, False, 0)))"
  by (cases "crawlerLinks impl = []") (simp_all add: findCrawlerLink_def split: option.splits)

lemma findCrawlerLink_collision_eq:
  "findCrawlerLink_collision impl b1 b2 =
     (case map_of (crawlerLinks impl) b2 of
        Some l \<Rightarrow> (Some l, - 1)
      | None \<Rightarrow>
          (case map_of (crawlerLinks impl) b1 of
             Some l \<Rightarrow> (Some l, 1)
           | None \<Rightarrow> (None, 1)))"
  by (cases "crawlerLinks impl = []")
    (simp_all add: findCrawlerLink_collision_def split: option.splits)


lemma nearContact_tracked_None:
  "nearContact impl h (Some cl, sg, mw, ang) c = None \<longleftrightarrow> 0.001 < depth (geom c)"
  by (simp add: nearContact_def Let_def)

lemma nearContact_geom:
  "nearContact impl h found c = Some c' \<Longrightarrow> geom c' = geom c"
  by (cases found rule: prod_cases4)
    (auto simp: nearContact_def Let_def isotropic_def split: option.splits if_splits)

lemma collisionContact_tracked_None:
  "collisionContact ext impl h (Some cl, sg) col = None \<longleftrightarrow> 0.001 < col_depth col"
  by (simp add: collisionContact_def Let_def)

lemma collisionContact_depth:
  "collisionContact ext impl h found col = Some c' \<Longrightarrow> depth (geom c') = col_depth col"
  by (cases found)
    (auto simp: collisionContact_def Let_def isotropic_def split: option.splits if_splits)

lemma map_filter_preserved:
  assumes "\<And>x y. f x = Some y \<Longrightarrow> g y = k x"
  shows "map g (List.map_filter f xs) = map k (filter (\<lambda>x. f x \<noteq> None) xs)"
  using assms by (induction xs) (auto simp: map_filter_simps split: option.splits)

lemma tracked_found:
  assumes "map_of (crawlerLinks impl) b1 \<noteq> None \<or> map_of (crawlerLinks impl) b2 \<noteq> None"
  shows "\<exists>cl sg mw ang. findCrawlerLink impl b1 b2 = (Some cl, sg, mw, ang)"
    and "\<exists>cl sg. findCrawlerLink_collision impl b1 b2 = (Some cl, sg)"
  using assms
  by (auto simp: findCrawlerLink_eq findCrawlerLink_collision_eq getMecanumWheelSetting_def
      split: option.splits)

lemma preserveMecanumWheel_stores:
  assumes "toString (ls ! i) = Inr s"
    and "Body_link h (body ob) s = Some p"
    and "Link_jointType (h p) = CRAWLER_JOINT"
    and "barrelAngleSetting angles i = Inr d"
    and "find (\<lambda>ol. p = link ol) (odeLinks ob) = Some ol"
    and "map_of (mecanumWheelSetting impl) (bodyID ol) = None"
  shows "getMecanumWheelSetting (preserveMecanumWheel h ob ls angles i impl) (bodyID ol) = (True, d)"
  using assms
  by (simp add: preserveMecanumWheel_def getMecanumWheelSetting_def map_insert_def map_of_append
      map_add_def)

lemma ex_wheel_found:
  "Body_link ex_link (ex_body\<lparr>info_mecanumWheelSetting := m\<rparr>) ''WHEEL'' = Some 1"
  by (simp add: Body_link_def ex_body_def ex_tree_def ex_link_def)

lemma ex_rolling:
  "rollingDirection True PI_2 (0, 1, 0) (0, 0, 1) = (0, - 1, 0)"
  "rollingDirection True 0 (0, 1, 0) (0, 0, 1) = (1, 0, 0)"
  by (simp_all add: rollingDirection_def PI_2_def)

lemma setKinematicStateToODE_fold:
  "setKinematicStateToODE ext h flip ob W = fold (pushLink ext h flip) (odeLinks ob) W"
  by (simp add: setKinematicStateToODE_def pushLink_def)

lemma getKinematicStateFromODE_loop_step:
  "getKinematicStateFromODE_loop flip W (ol # ols) h =
     (case pullLink flip ol W h of None \<Rightarrow> None
      | Some h' \<Rightarrow> getKinematicStateFromODE_loop flip W ols h')"
  by (simp add: pullLink_def)

lemma pushLink_frame:
  "bodyID ol \<noteq> 0 \<Longrightarrow> b \<noteq> bodyID ol \<Longrightarrow> bodies (pushLink ext h flip ol W) b = bodies W b"
  by (simp add: pushLink_def ODELink_setKinematicStateToODE_def
      ODELink_setKinematicStateToODEflip_def Let_def dBodySetRotation_def dBodySetPosition_def
      dBodySetLinearVel_def dBodySetAngularVel_def)

lemma pushLink_writes:
  "bodyID ol \<noteq> 0 \<Longrightarrow>
     sameKinematicState (bodies (pushLink ext h flip ol W) (bodyID ol))
       (bodies (pushLink ext h flip ol W0) (bodyID ol))"
  by (simp add: pushLink_def sameKinematicState_def ODELink_setKinematicStateToODE_def
      ODELink_setKinematicStateToODEflip_def Let_def dBodySetRotation_def dBodySetPosition_def
      dBodySetLinearVel_def dBodySetAngularVel_def)

lemma fold_pushLink:
  assumes "distinct (map bodyID ols)" and "\<forall>x \<in> set ols. bodyID x \<noteq> 0" and "ol \<in> set ols"
  shows "sameKinematicState (bodies (fold (pushLink ext h flip) ols W) (bodyID ol))
           (bodies (pushLink ext h flip ol W0) (bodyID ol))"
  using assms
proof (induction ols arbitrary: W rule: rev_induct)
  case Nil
  then show ?case by simp
next
  case (snoc x xs)
  show ?case
  proof (cases "ol = x")
    case True
    with snoc.prems show ?thesis by (simp add: pushLink_writes)
  next
    case False
    with snoc.prems have mem: "ol \<in> set xs" by simp
    from snoc.prems have "bodyID x \<notin> bodyID ` set xs" by simp
    with mem have ne: "bodyID ol \<noteq> bodyID x" by (metis imageI)
    from snoc.prems have x0: "bodyID x \<noteq> 0" by simp
    have "bodies (fold (pushLink ext h flip) (xs @ [x]) W) (bodyID ol) =
        bodies (fold (pushLink ext h flip) xs W) (bodyID ol)"
      by (simp add: pushLink_frame [OF x0 ne])
    with snoc.IH [OF _ _ mem] snoc.prems show ?thesis by simp
  qed
qed

lemma getJointState_fields:
  "Link_c (getJointState ol W lk) = Link_c lk"
  by (simp add: getJointState_def)

lemma vsub_vadd: "vsub (vadd a b) b = a"
  by (cases a rule: prod_cases3; cases b rule: prod_cases3) simp

lemma smul_neg_neg: "smul (- 1) (smul (- 1) v) = v"
  by (cases v rule: prod_cases3) simp

lemma pullLink_after_pushLink:
  assumes body: "bodyID ol \<noteq> 0"
    and same: "sameKinematicState (bodies W (bodyID ol))
                 (bodies (pushLink ext h0 flip ol W0) (bodyID ol))"
    and c: "Link_c (h (link ol)) = Link_c (h0 (link ol))"
  shows "\<exists>h'. pullLink flip ol W h = Some h'
           \<and> Link_p (h' (link ol)) = Link_p (h0 (link ol))
           \<and> Link_R (h' (link ol)) = Link_R (h0 (link ol))
           \<and> Link_v (h' (link ol)) = Link_v (h0 (link ol))
           \<and> Link_w (h' (link ol)) = Link_w (h0 (link ol))
           \<and> Link_c (h' (link ol)) = Link_c (h (link ol))
           \<and> (\<forall>l. l \<noteq> link ol \<longrightarrow> h' l = h l)"
proof (cases flip)
  case False
  from same body False
  have b: "posr_R (bodies W (bodyID ol)) = Link_R (h0 (link ol))"
    "posr_pos (bodies W (bodyID ol)) =
       vadd (Link_p (h0 (link ol))) (mvmul (Link_R (h0 (link ol))) (Link_c (h0 (link ol))))"
    "lvel (bodies W (bodyID ol)) =
       vadd (Link_v (h0 (link ol)))
         (cross (Link_w (h0 (link ol)))
            (mvmul (Link_R (h0 (link ol))) (Link_c (h0 (link ol)))))"
    "avel (bodies W (bodyID ol)) = Link_w (h0 (link ol))"
    by (simp_all add: sameKinematicState_def pushLink_def ODELink_setKinematicStateToODE_def
        Let_def dBodySetRotation_def dBodySetPosition_def dBodySetLinearVel_def
        dBodySetAngularVel_def)
  show ?thesis
    using body False
    by (simp add: pullLink_def ODELink_getKinematicStateFromODE_def Let_def b c
        getJointState_fields vsub_vadd)
next
  case True
  obtain r0 r1 r2 where R: "Link_R (h0 (link ol)) = (r0, r1, r2)"
    by (cases "Link_R (h0 (link ol))" rule: prod_cases3)
  obtain lx ly lz where lc: "mvmul (r0, r1, r2) (Link_c (h0 (link ol))) = (lx, ly, lz)"
    by (cases "mvmul (r0, r1, r2) (Link_c (h0 (link ol)))" rule: prod_cases3)
  obtain px py pz where p: "Link_p (h0 (link ol)) = (px, py, pz)"
    by (cases "Link_p (h0 (link ol))" rule: prod_cases3)
  obtain vx vy vz where v: "Link_v (h0 (link ol)) = (vx, vy, vz)"
    by (cases "Link_v (h0 (link ol))" rule: prod_cases3)
  obtain wx wy wz where w: "Link_w (h0 (link ol)) = (wx, wy, wz)"
    by (cases "Link_w (h0 (link ol))" rule: prod_cases3)
  from same body True
  have b: "posr_R (bodies W (bodyID ol)) = (r0, r2, smul (- 1) r1)"
    "posr_pos (bodies W (bodyID ol)) = (px + lx, pz + lz, - (py + ly))"
    "lvel (bodies W (bodyID ol)) =
       (vx + (wy * lz - wz * ly), vz + (wx * ly - wy * lx), - (vy + (wz * lx - wx * lz)))"
    "avel (bodies W (bodyID ol)) = (wx, wz, - wy)"
    using lc
    by (simp_all add: sameKinematicState_def pushLink_def ODELink_setKinematicStateToODEflip_def
        Let_def dBodySetRotation_def dBodySetPosition_def dBodySetLinearVel_def
        dBodySetAngularVel_def R p v w)
  show ?thesis
    using body True lc
    by (simp add: pullLink_def ODELink_getKinematicStateFromODEflip_def Let_def b c
        getJointState_fields smul_neg_neg R p v w algebra_simps)
qed

lemma pull_loop_after_push:
  assumes "distinct (map link ols)"
    and "\<forall>x \<in> set ols. bodyID x \<noteq> 0"
    and "\<forall>x \<in> set ols. sameKinematicState (bodies W (bodyID x))
           (bodies (pushLink ext h0 flip x W0) (bodyID x))"
    and "\<forall>x \<in> set ols. Link_c (h (link x)) = Link_c (h0 (link x))"
  shows "\<exists>h'. getKinematicStateFromODE_loop flip W ols h = Some h'
           \<and> (\<forall>x \<in> set ols.
                 Link_p (h' (link x)) = Link_p (h0 (link x))
                 \<and> Link_R (h' (link x)) = Link_R (h0 (link x))
                 \<and> Link_v (h' (link x)) = Link_v (h0 (link x))
                 \<and> Link_w (h' (link x)) = Link_w (h0 (link x)))
           \<and> (\<forall>l. l \<notin> link ` set ols \<longrightarrow> h' l = h l)"
  using assms
proof (induction ols arbitrary: h)
  case Nil
  then show ?case by simp
next
  case (Cons x xs)
  from Cons.prems have x0: "bodyID x \<noteq> 0"
    and same: "sameKinematicState (bodies W (bodyID x))
           (bodies (pushLink ext h0 flip x W0) (bodyID x))"
    and cx: "Link_c (h (link x)) = Link_c (h0 (link x))"
    and fresh: "link x \<notin> link ` set xs"
    by simp_all
  from pullLink_after_pushLink
    [where ol = x and W = W and ext = ext and ?h0.0 = h0 and flip = flip and ?W0.0 = W0
      and h = h, OF x0 same cx]
  obtain h1
    where pull: "pullLink flip x W h = Some h1"
      and fx: "Link_p (h1 (link x)) = Link_p (h0 (link x))"
        "Link_R (h1 (link x)) = Link_R (h0 (link x))"
        "Link_v (h1 (link x)) = Link_v (h0 (link x))"
        "Link_w (h1 (link x)) = Link_w (h0 (link x))"
      and frame: "\<forall>l. l \<noteq> link x \<longrightarrow> h1 l = h l"
    by blast
  have c1: "\<forall>y \<in> set xs. Link_c (h1 (link y)) = Link_c (h0 (link y))"
  proof
    fix y assume y: "y \<in> set xs"
    with fresh have "link y \<noteq> link x" by (metis imageI)
    with frame have "h1 (link y) = h (link y)" by simp
    with Cons.prems(4) y show "Link_c (h1 (link y)) = Link_c (h0 (link y))" by simp
  qed
  from Cons.prems have d: "distinct (map link xs)"
    and b: "\<forall>y \<in> set xs. bodyID y \<noteq> 0"
    and s: "\<forall>y \<in> set xs. sameKinematicState (bodies W (bodyID y))
           (bodies (pushLink ext h0 flip y W0) (bodyID y))"
    by simp_all
  from Cons.IH [of h1, OF d b s c1] obtain h'
    where loop: "getKinematicStateFromODE_loop flip W xs h1 = Some h'"
      and fs: "\<forall>y \<in> set xs.
                 Link_p (h' (link y)) = Link_p (h0 (link y))
                 \<and> Link_R (h' (link y)) = Link_R (h0 (link y))
                 \<and> Link_v (h' (link y)) = Link_v (h0 (link y))
                 \<and> Link_w (h' (link y)) = Link_w (h0 (link y))"
      and out: "\<forall>l. l \<notin> link ` set xs \<longrightarrow> h' l = h1 l"
    by blast
  from out fresh have hx: "h' (link x) = h1 (link x)" by simp
  have "getKinematicStateFromODE_loop flip W (x # xs) h = Some h'"
    by (simp only: getKinematicStateFromODE_loop_step pull loop option.case)
  moreover have "\<forall>l. l \<notin> link ` set (x # xs) \<longrightarrow> h' l = h l"
    using out frame by simp
  ultimately show ?case
    using fs fx hx by simp
qed




















subsection \<open>The contact joint group\<close>

text \<open>
  Claim C7. In every step the contact joint group is emptied before the collision phase
  begins: the state in which the collision phase begins has an empty group; the group that
  a step leaves behind is the group that its own collision phase builds from the empty
  one; and a step does the same whatever the group held before it, so that no contact
  joint of one step is kept into the next.
\<close>

theorem contact_group_emptied_each_step:
  "contactJointGroup (snd (beforeCollide ext bs st)) = []
   \<and> (\<forall>st'. stepSimulation ext bs st = Some st' \<longrightarrow>
         contactJointGroup (snd st') =
           contactJointGroup (step_collide ext (fst (beforeCollide ext bs st))
                                (snd (beforeCollide ext bs st))))
   \<and> stepSimulation ext bs (h, impl\<lparr>contactJointGroup := g\<rparr>) = stepSimulation ext bs (h, impl)"
proof (intro conjI allI impI)
  show "contactJointGroup (snd (beforeCollide ext bs st)) = []"
    by (simp add: beforeCollide_def dJointGroupEmpty_def split: prod.splits)
next
  fix st'
  assume "stepSimulation ext bs st = Some st'"
  then show "contactJointGroup (snd st') =
           contactJointGroup (step_collide ext (fst (beforeCollide ext bs st))
                                (snd (beforeCollide ext bs st)))"
    by (auto simp: stepSimulation_def step_integrate_def split: prod.splits dest!: step_post_group)
next
  show "stepSimulation ext bs (h, impl\<lparr>contactJointGroup := g\<rparr>) = stepSimulation ext bs (h, impl)"
    by (simp add: stepSimulation_def beforeCollide_group)
qed

text \<open>
  A step on a group that holds an older joint of the bodies 5 and 6: the collision phase
  begins with the empty group and the step leaves the one new joint of body 1.
\<close>

theorem contact_group_emptied_each_step_witness:
  "contactJointGroup (snd (beforeCollide ex_ext []
      (ex_link, ex_impl\<lparr>contactJointGroup :=
         [\<lparr>contact = ex_contact, contact_body1 = 5, contact_body2 = 6\<rparr>]\<rparr>))) = []
   \<and> map_option (\<lambda>st. map contact_body1 (contactJointGroup (snd st)))
        (stepSimulation ex_ext []
           (ex_link, ex_impl\<lparr>contactJointGroup :=
              [\<lparr>contact = ex_contact, contact_body1 = 5, contact_body2 = 6\<rparr>]\<rparr>)) = Some [1]"
  using contact_group_emptied_each_step
    [where ext = ex_ext and bs = "[]"
      and st = "(ex_link, ex_impl\<lparr>contactJointGroup :=
         [\<lparr>contact = ex_contact, contact_body1 = 5, contact_body2 = 6\<rparr>]\<rparr>)"
      and h = ex_link and impl = ex_impl
      and g = "[\<lparr>contact = ex_contact, contact_body1 = 5, contact_body2 = 6\<rparr>]"]
    ex_step
  by simp

subsection \<open>Adding a body\<close>

text \<open>
  Claim C10. \<open>addBody\<close> resets the actuation state of the model before it constructs
  any solver object: \<open>createBody\<close> runs on the simulator as it was handed in and on the
  heap that forward kinematics computes from the reset heap; in the reset heap the root
  link's \<open>v\<close>, \<open>dv\<close>, \<open>w\<close> and \<open>dw\<close> are zero, \<open>u\<close>, \<open>dq\<close> and \<open>ddq\<close> of every
  joint are 0, and the external force and torque of every link of the body are zero.
\<close>

theorem addBody_resets_before_createBody:
  "addBody ext odeBody (h, impl) =
     (let h' = clearExternalForces (body odeBody)
                 (resetJoints (body odeBody) (resetRootLink (body odeBody) h));
          h4 = calcForwardKinematics ext (body odeBody) h'
      in case createBody ext h4 (impl, odeBody) of
           (impl1, odeBody1) \<Rightarrow> ((h4, preserveMecanumWheelSetting h4 odeBody1 impl1), odeBody1))
   \<and> (let h' = clearExternalForces (body odeBody)
                 (resetJoints (body odeBody) (resetRootLink (body odeBody) h));
            root = h' (rootOf (rootLink (body odeBody)))
        in Link_v root = Zero3 \<and> Link_dv root = Zero3 \<and> Link_w root = Zero3
           \<and> Link_dw root = Zero3
           \<and> (\<forall>i < numJoints (body odeBody).
                 Link_u (h' (joint (body odeBody) i)) = 0
                 \<and> Link_dq (h' (joint (body odeBody) i)) = 0
                 \<and> Link_ddq (h' (joint (body odeBody) i)) = 0)
           \<and> (\<forall>l \<in> set (preorder (rootLink (body odeBody))).
                 Link_f_ext (h' l) = Zero3 \<and> Link_tau_ext (h' l) = Zero3))"
proof (intro conjI)
  show "addBody ext odeBody (h, impl) =
     (let h' = clearExternalForces (body odeBody)
                 (resetJoints (body odeBody) (resetRootLink (body odeBody) h));
          h4 = calcForwardKinematics ext (body odeBody) h'
      in case createBody ext h4 (impl, odeBody) of
           (impl1, odeBody1) \<Rightarrow> ((h4, preserveMecanumWheelSetting h4 odeBody1 impl1), odeBody1))"
    by (simp add: addBody_def Let_def split: prod.splits)
next
  show "let h' = clearExternalForces (body odeBody)
                 (resetJoints (body odeBody) (resetRootLink (body odeBody) h));
            root = h' (rootOf (rootLink (body odeBody)))
        in Link_v root = Zero3 \<and> Link_dv root = Zero3 \<and> Link_w root = Zero3
           \<and> Link_dw root = Zero3
           \<and> (\<forall>i < numJoints (body odeBody).
                 Link_u (h' (joint (body odeBody) i)) = 0
                 \<and> Link_dq (h' (joint (body odeBody) i)) = 0
                 \<and> Link_ddq (h' (joint (body odeBody) i)) = 0)
           \<and> (\<forall>l \<in> set (preorder (rootLink (body odeBody))).
                 Link_f_ext (h' l) = Zero3 \<and> Link_tau_ext (h' l) = Zero3)"
    by (auto simp: Let_def clearExternalForces_def resetJoints_at resetRootLink_def)
qed

text \<open>
  At the example body: joint 1 is the link at address 2, whose \<open>u\<close> was 2.
\<close>

theorem addBody_resets_before_createBody_witness:
  "Link_u (ex_link 2) = 2
   \<and> Link_u (fst (fst (addBody ex_ext (ODEBody_new ex_body) (ex_link, ex_impl))) 2) = 0
   \<and> Link_dq (fst (fst (addBody ex_ext (ODEBody_new ex_body) (ex_link, ex_impl))) 2) = 0
   \<and> Link_v (fst (fst (addBody ex_ext (ODEBody_new ex_body) (ex_link, ex_impl))) 0) = Zero3
   \<and> Link_f_ext (fst (fst (addBody ex_ext (ODEBody_new ex_body) (ex_link, ex_impl))) 3) = Zero3"
proof -
  let ?h' = "clearExternalForces ex_body (resetJoints ex_body (resetRootLink ex_body ex_link))"
  have b: "body (ODEBody_new ex_body) = ex_body" by (simp add: ODEBody_new_def)
  note fact = addBody_resets_before_createBody
    [of ex_ext "ODEBody_new ex_body" ex_link ex_impl, unfolded b]
  from fact have "fst (fst (addBody ex_ext (ODEBody_new ex_body) (ex_link, ex_impl))) =
      calcForwardKinematics ex_ext ex_body ?h'"
    by (simp add: Let_def split: prod.splits)
  then have heap: "fst (fst (addBody ex_ext (ODEBody_new ex_body) (ex_link, ex_impl))) = ?h'"
    by (simp add: ex_ext_def)
  from fact have root: "Link_v (?h' (rootOf (rootLink ex_body))) = Zero3"
    and js: "\<forall>i < numJoints ex_body. Link_u (?h' (joint ex_body i)) = 0
          \<and> Link_dq (?h' (joint ex_body i)) = 0 \<and> Link_ddq (?h' (joint ex_body i)) = 0"
    and fs: "\<forall>l \<in> set (preorder (rootLink ex_body)). Link_f_ext (?h' l) = Zero3
          \<and> Link_tau_ext (?h' l) = Zero3"
    by (simp_all add: Let_def)
  have "(1::nat) < numJoints ex_body" by (simp add: numJoints_def ex_body_def)
  with js have "Link_u (?h' (joint ex_body 1)) = 0 \<and> Link_dq (?h' (joint ex_body 1)) = 0"
    by blast
  moreover have "joint ex_body 1 = 2" by (simp add: joint_def ex_body_def)
  moreover have "rootOf (rootLink ex_body) = 0" by (simp add: ex_body_def ex_tree_def)
  moreover have "3 \<in> set (preorder (rootLink ex_body))" by (simp add: ex_body_def ex_tree_def)
  with fs have "Link_f_ext (?h' 3) = Zero3" by blast
  moreover have "Link_u (ex_link 2) = 2" by (simp add: ex_link_def)
  ultimately show ?thesis using root heap by simp
qed

subsection \<open>Transfer of the kinematic state\<close>

text \<open>
  Claim C1. For a body all of whose adapters have a solver body (a body that is not
  static; the handles and the links of the adapters are pairwise distinct), writing the
  kinematic state of a link heap to the solver and reading it back under the same
  convention, direct or flipped, succeeds and reproduces position, rotation, linear
  velocity and angular velocity of every link: whatever these four components are in the
  heap that is read into, which need agree with the written heap on the centres of mass
  only, they are afterwards those that were written, and the links of no other body are
  touched. In particular, for every such adapter, \<open>getKinematicStateFromODEflip\<close>
  after \<open>setKinematicStateToODEflip\<close> gives back these four components exactly.
\<close>

theorem push_then_pull_reproduces_state:
  assumes bodies: "\<forall>ol \<in> set (odeLinks ob). bodyID ol \<noteq> 0"
    and handles: "distinct (map bodyID (odeLinks ob))"
    and links: "distinct (map link (odeLinks ob))"
    and centres: "\<forall>ol \<in> set (odeLinks ob). Link_c (h2 (link ol)) = Link_c (h (link ol))"
  shows "(\<exists>h'. getKinematicStateFromODE flip ob (setKinematicStateToODE ext h flip ob W) h2 = Some h'
           \<and> (\<forall>ol \<in> set (odeLinks ob).
                 Link_p (h' (link ol)) = Link_p (h (link ol))
                 \<and> Link_R (h' (link ol)) = Link_R (h (link ol))
                 \<and> Link_v (h' (link ol)) = Link_v (h (link ol))
                 \<and> Link_w (h' (link ol)) = Link_w (h (link ol)))
           \<and> (\<forall>l. l \<notin> link ` set (odeLinks ob) \<longrightarrow> h' l = h2 l))
         \<and> (\<forall>ol \<in> set (odeLinks ob).
               \<exists>h'. ODELink_getKinematicStateFromODEflip ol
                       (ODELink_setKinematicStateToODEflip ext h ol W) h2 = Some h'
                 \<and> Link_p (h' (link ol)) = Link_p (h (link ol))
                 \<and> Link_R (h' (link ol)) = Link_R (h (link ol))
                 \<and> Link_v (h' (link ol)) = Link_v (h (link ol))
                 \<and> Link_w (h' (link ol)) = Link_w (h (link ol)))"
proof (intro conjI ballI)
  let ?W = "setKinematicStateToODE ext h flip ob W"
  have same: "\<forall>x \<in> set (odeLinks ob). sameKinematicState (bodies ?W (bodyID x))
           (bodies (pushLink ext h flip x W) (bodyID x))"
    using fold_pushLink [OF handles bodies] by (simp add: setKinematicStateToODE_fold)
  from pull_loop_after_push
    [where ols = "odeLinks ob" and W = ?W and ext = ext and ?h0.0 = h and flip = flip
      and ?W0.0 = W and h = h2, OF links bodies same centres]
  show "\<exists>h'. getKinematicStateFromODE flip ob ?W h2 = Some h'
           \<and> (\<forall>ol \<in> set (odeLinks ob).
                 Link_p (h' (link ol)) = Link_p (h (link ol))
                 \<and> Link_R (h' (link ol)) = Link_R (h (link ol))
                 \<and> Link_v (h' (link ol)) = Link_v (h (link ol))
                 \<and> Link_w (h' (link ol)) = Link_w (h (link ol)))
           \<and> (\<forall>l. l \<notin> link ` set (odeLinks ob) \<longrightarrow> h' l = h2 l)"
    by (auto simp: getKinematicStateFromODE_def)
next
  fix ol assume mem: "ol \<in> set (odeLinks ob)"
  with bodies have b: "bodyID ol \<noteq> 0" by blast
  from centres mem have c: "Link_c (h2 (link ol)) = Link_c (h (link ol))" by blast
  have same: "sameKinematicState
      (bodies (ODELink_setKinematicStateToODEflip ext h ol W) (bodyID ol))
      (bodies (pushLink ext h True ol W) (bodyID ol))"
    by (simp add: pushLink_def sameKinematicState_def)
  from pullLink_after_pushLink
    [where ol = ol and W = "ODELink_setKinematicStateToODEflip ext h ol W" and ext = ext
      and ?h0.0 = h and flip = True and ?W0.0 = W and h = h2, OF b same c]
  show "\<exists>h'. ODELink_getKinematicStateFromODEflip ol
                       (ODELink_setKinematicStateToODEflip ext h ol W) h2 = Some h'
                 \<and> Link_p (h' (link ol)) = Link_p (h (link ol))
                 \<and> Link_R (h' (link ol)) = Link_R (h (link ol))
                 \<and> Link_v (h' (link ol)) = Link_v (h (link ol))
                 \<and> Link_w (h' (link ol)) = Link_w (h (link ol))"
    by (auto simp: pullLink_def)
qed

text \<open>
  The flipped convention on the body with two adapters: the state that was written is
  read back into the links that have moved since, where link 2 was at the origin.
\<close>

theorem push_then_pull_reproduces_state_witness:
  "map_option (\<lambda>h'. (Link_p (h' 2), Link_R (h' 2), Link_v (h' 2), Link_w (h' 2)))
     (getKinematicStateFromODE True ex_body_two
        (setKinematicStateToODE ex_ext ex_link True ex_body_two ex_world) ex_link_moved) =
   Some ((1, 2, 3), Identity3, (4, 5, 6), (7, 8, 9))
   \<and> Link_p (ex_link_moved 2) = (0, 0, 0)"
proof -
  let ?ol = "\<lparr>link = 2, bodyID = 2, jointID = 0, geomID = [], offsetMap = [], motorID = 0\<rparr>"
  have bodies: "\<forall>ol \<in> set (odeLinks ex_body_two). bodyID ol \<noteq> 0"
    by (simp add: ex_body_two_def)
  have handles: "distinct (map bodyID (odeLinks ex_body_two))"
    by (simp add: ex_body_two_def)
  have links: "distinct (map link (odeLinks ex_body_two))"
    by (simp add: ex_body_two_def)
  have centres: "\<forall>ol \<in> set (odeLinks ex_body_two).
      Link_c (ex_link_moved (link ol)) = Link_c (ex_link (link ol))"
    by (simp add: ex_link_moved_def)
  have mem: "?ol \<in> set (odeLinks ex_body_two)" by (simp add: ex_body_two_def)
  from push_then_pull_reproduces_state [OF bodies handles links centres,
      of True ex_ext ex_world]
  obtain h' where pull: "getKinematicStateFromODE True ex_body_two
        (setKinematicStateToODE ex_ext ex_link True ex_body_two ex_world) ex_link_moved = Some h'"
    and fields: "\<forall>ol \<in> set (odeLinks ex_body_two).
                 Link_p (h' (link ol)) = Link_p (ex_link (link ol))
                 \<and> Link_R (h' (link ol)) = Link_R (ex_link (link ol))
                 \<and> Link_v (h' (link ol)) = Link_v (ex_link (link ol))
                 \<and> Link_w (h' (link ol)) = Link_w (ex_link (link ol))"
    by blast
  from fields mem have "Link_p (h' (link ?ol)) = Link_p (ex_link (link ?ol))
      \<and> Link_R (h' (link ?ol)) = Link_R (ex_link (link ?ol))
      \<and> Link_v (h' (link ?ol)) = Link_v (ex_link (link ?ol))
      \<and> Link_w (h' (link ?ol)) = Link_w (ex_link (link ?ol))"
    by blast
  then show ?thesis
    by (simp add: pull ex_link_def ex_link_moved_def)
qed

subsection \<open>The 2D alignment\<close>



subsection \<open>The adapters of a body\<close>

text \<open>
  Claim C6. For every link tree handed to \<open>createBody\<close> on a new \<open>ODEBody\<close>, the
  links being numbered in the order of the tree traversal, the adapter vector has exactly
  one entry for each link of the tree, the adapters wrap the links in that order (a link
  before its children, the children from first to last), and the adapter at every
  position \<open>i\<close> wraps the link whose index is \<open>i\<close>.
\<close>

theorem adapters_aligned_with_link_indices:
  assumes numbered: "linkIndicesInTraversalOrder h b"
  shows "length (odeLinks (snd (createBody ext h (impl, ODEBody_new b)))) =
           length (preorder (rootLink b))
         \<and> map link (odeLinks (snd (createBody ext h (impl, ODEBody_new b)))) =
             preorder (rootLink b)
         \<and> (\<forall>i < length (odeLinks (snd (createBody ext h (impl, ODEBody_new b)))).
               Link_index (h (link (odeLinks (snd (createBody ext h (impl, ODEBody_new b))) ! i)))
                 = int i)"
proof -
  have links: "map link (odeLinks (snd (createBody ext h (impl, ODEBody_new b)))) =
      preorder (rootLink b)"
    by (simp add: createBody_links ODEBody_new_def)
  have len: "length (odeLinks (snd (createBody ext h (impl, ODEBody_new b)))) =
      length (preorder (rootLink b))"
    using arg_cong [OF links, of length] by simp
  show ?thesis
    using links len index_aligned_iff [OF links, of h] numbered
    by (simp add: linkIndicesInTraversalOrder_def)
qed

text \<open>
  At the example tree with its four links.
\<close>

theorem adapters_aligned_with_link_indices_witness:
  "linkIndicesInTraversalOrder ex_link ex_body
   \<and> length (odeLinks (snd (createBody ex_ext ex_link (ex_impl, ODEBody_new ex_body)))) = 4
   \<and> map link (odeLinks (snd (createBody ex_ext ex_link (ex_impl, ODEBody_new ex_body)))) =
       [0, 1, 2, 3]
   \<and> Link_index (ex_link (link
         (odeLinks (snd (createBody ex_ext ex_link (ex_impl, ODEBody_new ex_body))) ! 2))) = 2"
proof -
  let ?ols = "odeLinks (snd (createBody ex_ext ex_link (ex_impl, ODEBody_new ex_body)))"
  have pre: "preorder (rootLink ex_body) = [0, 1, 2, 3]"
    by (simp add: ex_body_def ex_tree_def)
  have numbered: "linkIndicesInTraversalOrder ex_link ex_body"
    by (simp add: linkIndicesInTraversalOrder_def pre ex_link_def upt_rec)
  note fact = adapters_aligned_with_link_indices [OF numbered, of ex_ext ex_impl, unfolded pre]
  from fact have l4: "length ?ols = length [0::nat, 1, 2, 3]" by blast
  from fact have links: "map link ?ols = [0, 1, 2, 3]" by blast
  from fact have al: "\<forall>i < length ?ols. Link_index (ex_link (link (?ols ! i))) = int i"
    by blast
  have "(2::nat) < length ?ols" using l4 by simp
  with al have "Link_index (ex_link (link (?ols ! 2))) = int 2" by blast
  then show ?thesis using l4 links numbered by simp
qed

subsection \<open>Contacts of tracked links\<close>

text \<open>
  Claim C4. For a pair of bodies of which one is a tracked link, a contact whose
  penetration depth exceeds 0.001 creates no contact joint, in \<open>nearCallback\<close> and in
  \<open>collisionCallback\<close>: the loop body ends with \<open>continue\<close> for it, and the joints
  that a callback adds to the group are exactly those of the contacts with a depth of at
  most 0.001, in their order (none when the vacuum gripper's hook claims the pair).
\<close>

theorem deep_tracked_contact_discarded:
  assumes tracked:
    "map_of (crawlerLinks impl) b1 \<noteq> None \<or> map_of (crawlerLinks impl) b2 \<noteq> None"
  shows
    "(0.001 < depth (geom c) \<longrightarrow> nearContact impl h (findCrawlerLink impl b1 b2) c = None)
     \<and> (0.001 < col_depth col \<longrightarrow>
          collisionContact ext impl h (findCrawlerLink_collision impl b1 b2) col = None)
     \<and> map (\<lambda>j. geom (contact j))
          (drop (length (contactJointGroup impl))
             (contactJointGroup (nearCallback ext h (b1, b2, cs) impl))) =
        (if isContactProcessingSkip ext b1 b2 (take MaxNumContacts cs) then []
         else map geom (filter (\<lambda>c. depth (geom c) \<le> 0.001) (take MaxNumContacts cs)))
     \<and> (geometryId0 cp < length (geometryIdToLink impl)
          \<and> geometryId1 cp < length (geometryIdToLink impl)
          \<and> geometryIdToLink impl ! geometryId0 cp = Some link1
          \<and> geometryIdToLink impl ! geometryId1 cp = Some link2
          \<and> bodyID link1 = b1 \<and> bodyID link2 = b2 \<longrightarrow>
          map (\<lambda>j. depth (geom (contact j)))
            (drop (length (contactJointGroup impl))
               (contactJointGroup (collisionCallback ext h cp impl))) =
          filter (\<lambda>x. x \<le> 0.001) (map col_depth (collisions cp)))"
proof -
  from tracked_found(1) [OF tracked] obtain cl sg mw ang
    where near: "findCrawlerLink impl b1 b2 = (Some cl, sg, mw, ang)" by blast
  from tracked_found(2) [OF tracked] obtain cl' sg'
    where coll: "findCrawlerLink_collision impl b1 b2 = (Some cl', sg')" by blast
  have a: "0.001 < depth (geom c) \<longrightarrow> nearContact impl h (findCrawlerLink impl b1 b2) c = None"
    by (simp add: near nearContact_tracked_None)
  have b: "0.001 < col_depth col \<longrightarrow>
          collisionContact ext impl h (findCrawlerLink_collision impl b1 b2) col = None"
    by (simp add: coll collisionContact_tracked_None)
  have near_new: "map geom (List.map_filter (nearContact impl h (Some cl, sg, mw, ang)) xs) =
      map geom (filter (\<lambda>c. depth (geom c) \<le> 0.001) xs)" for xs
  proof -
    have "map geom (List.map_filter (nearContact impl h (Some cl, sg, mw, ang)) xs) =
        map geom (filter (\<lambda>c. nearContact impl h (Some cl, sg, mw, ang) c \<noteq> None) xs)"
      by (rule map_filter_preserved) (rule nearContact_geom)
    also have "(\<lambda>c. nearContact impl h (Some cl, sg, mw, ang) c \<noteq> None) =
        (\<lambda>c. depth (geom c) \<le> 0.001)"
      by (auto simp: nearContact_tracked_None)
    finally show ?thesis .
  qed
  have c: "map (\<lambda>j. geom (contact j))
          (drop (length (contactJointGroup impl))
             (contactJointGroup (nearCallback ext h (b1, b2, cs) impl))) =
        (if isContactProcessingSkip ext b1 b2 (take MaxNumContacts cs) then []
         else map geom (filter (\<lambda>c. depth (geom c) \<le> 0.001) (take MaxNumContacts cs)))"
    using near_new [of "take MaxNumContacts cs"]
    by (auto simp: nearCallback_def Let_def createContacts_eq near comp_def)
  have coll_new:
    "map (\<lambda>c. depth (geom c)) (List.map_filter (collisionContact ext impl h (Some cl', sg')) xs) =
      filter (\<lambda>x. x \<le> 0.001) (map col_depth xs)" for xs
  proof -
    have "map (\<lambda>c. depth (geom c))
          (List.map_filter (collisionContact ext impl h (Some cl', sg')) xs) =
        map col_depth
          (filter (\<lambda>col. collisionContact ext impl h (Some cl', sg') col \<noteq> None) xs)"
      by (rule map_filter_preserved) (rule collisionContact_depth)
    also have "(\<lambda>col. collisionContact ext impl h (Some cl', sg') col \<noteq> None) =
        (\<lambda>col. col_depth col \<le> 0.001)"
      by (auto simp: collisionContact_tracked_None)
    finally show ?thesis by (simp add: filter_map comp_def)
  qed
  have d: "geometryId0 cp < length (geometryIdToLink impl)
          \<and> geometryId1 cp < length (geometryIdToLink impl)
          \<and> geometryIdToLink impl ! geometryId0 cp = Some link1
          \<and> geometryIdToLink impl ! geometryId1 cp = Some link2
          \<and> bodyID link1 = b1 \<and> bodyID link2 = b2 \<longrightarrow>
          map (\<lambda>j. depth (geom (contact j)))
            (drop (length (contactJointGroup impl))
               (contactJointGroup (collisionCallback ext h cp impl))) =
          filter (\<lambda>x. x \<le> 0.001) (map col_depth (collisions cp))"
    using coll_new [of "collisions cp"]
    by (auto simp: collisionCallback_def Let_def createContacts_eq coll comp_def)
  from a b c d show ?thesis by blast
qed

text \<open>
  Body 1 is tracked: of a deep and a shallow contact only the shallow one becomes a joint.
\<close>

theorem deep_tracked_contact_discarded_witness:
  "nearContact ex_impl ex_link (findCrawlerLink ex_impl 1 2) ex_deep = None
   \<and> map (\<lambda>j. geom (contact j))
        (contactJointGroup (nearCallback ex_ext ex_link (1, 2, [ex_deep, ex_contact]) ex_impl)) =
      [geom ex_contact]
   \<and> map (\<lambda>j. depth (geom (contact j)))
        (contactJointGroup (collisionCallback ex_ext ex_link ex_pair ex_impl_world)) = [0]"
proof -
  have tracked: "map_of (crawlerLinks ex_impl) 1 \<noteq> None \<or> map_of (crawlerLinks ex_impl) 2 \<noteq> None"
    by (simp add: ex_impl_def)
  have tracked': "map_of (crawlerLinks ex_impl_world) 1 \<noteq> None
      \<or> map_of (crawlerLinks ex_impl_world) 2 \<noteq> None"
    by (simp add: ex_impl_world_def ex_impl_def)
  note near = deep_tracked_contact_discarded [OF tracked, where c = ex_deep and h = ex_link
      and ext = ex_ext and cs = "[ex_deep, ex_contact]"]
  note coll = deep_tracked_contact_discarded [OF tracked', where ext = ex_ext and h = ex_link
      and cp = ex_pair and ?link1.0 = "ex_odeLink 1" and ?link2.0 = "ex_odeLink 2"]
  have "nearContact ex_impl ex_link (findCrawlerLink ex_impl 1 2) ex_deep = None"
    using near by (simp add: ex_deep_def)
  moreover have "map (\<lambda>j. geom (contact j))
        (contactJointGroup (nearCallback ex_ext ex_link (1, 2, [ex_deep, ex_contact]) ex_impl)) =
      [geom ex_contact]"
    using near
    by (simp add: ex_deep_def ex_contact_def ex_impl_def ex_ext_def MaxNumContacts_def)
  moreover have "map (\<lambda>j. depth (geom (contact j)))
        (contactJointGroup (collisionCallback ex_ext ex_link ex_pair ex_impl_world)) = [0]"
    using coll
    by (simp add: ex_pair_def ex_impl_world_def ex_impl_def ex_odeLink_def)
  ultimately show ?thesis by blast
qed







text \<open>
  For a pseudo continuous track the two callbacks differ: \<open>nearCallback\<close> takes the
  slip speed from \<open>dq\<close> (here 3), \<open>collisionCallback\<close> from \<open>u\<close> (here 2).
\<close>

lemma collisionContact_pseudo_track_motion:
  "map_option (\<lambda>c. motion1 (surface c))
     (nearContact ex_impl (\<lambda>l. (ex_link l)\<lparr>Link_jointType := PSEUDO_CONTINUOUS_TRACK\<rparr>)
        (findCrawlerLink ex_impl 1 2) ex_contact) = Some 3
   \<and> map_option (\<lambda>c. motion1 (surface c))
        (collisionContact ex_ext ex_impl
           (\<lambda>l. (ex_link l)\<lparr>Link_jointType := PSEUDO_CONTINUOUS_TRACK\<rparr>)
           (findCrawlerLink_collision ex_impl 1 2)
           \<lparr>point = (0, 0, 0), col_normal = (0, 0, - 1), col_depth = 0\<rparr>) = Some 2"
proof -
  have n1: "norm3 (1, 0, 0) = 1" by (simp add: norm3_def squaredNorm_def)
  show ?thesis
    by (simp add: ex_impl_def findCrawlerLink_eq findCrawlerLink_collision_eq
        getMecanumWheelSetting_def nearContact_def collisionContact_def ex_contact_def
        ex_link_def Identity3_def rollingDirection_def n1 ex_ext_def)
qed

subsection \<open>Barrel angles\<close>

text \<open>
  Claim C2, as amended. For a link with a mecanum wheel configuration: without a
  configured barrel angle the stored rotation is 0, and so it is for a configured angle
  within 0.00001 of \<open>PI_2\<close>; the stored rotation is what \<open>getMecanumWheelSetting\<close>
  returns for the link's body; with the stored rotation 0 the rolling direction is the
  plain track direction, track axis \<open>\<times>\<close> contact normal, the one of a link without a
  mecanum wheel setting. A configured barrel angle of 0 stores the rotation \<open>PI_2\<close>:
  the rolling direction is then the plain track direction crossed with the contact
  normal, a quarter turn about the normal, and differs from the plain track direction
  whenever that is not zero.
\<close>

theorem barrel_angle_rolling_direction:
  "barrelAngleSetting None i = Inr 0
   \<and> (length angs \<le> i \<longrightarrow> barrelAngleSetting (Some angs) i = Inr 0)
   \<and> (i < length angs \<and> toDouble (angs ! i) = Inr d2 \<and> d2 \<noteq> 0 \<and> \<bar>PI_2 - d2\<bar> < 0.00001 \<longrightarrow>
        barrelAngleSetting (Some angs) i = Inr 0)
   \<and> (i < length angs \<and> toDouble (angs ! i) = Inr 0 \<longrightarrow>
        barrelAngleSetting (Some angs) i = Inr PI_2)
   \<and> (toString (ls ! i) = Inr s \<and> Body_link h (body ob) s = Some p
        \<and> Link_jointType (h p) = CRAWLER_JOINT \<and> barrelAngleSetting angles i = Inr d
        \<and> find (\<lambda>ol. p = link ol) (odeLinks ob) = Some ol
        \<and> map_of (mecanumWheelSetting impl) (bodyID ol) = None \<longrightarrow>
        getMecanumWheelSetting (preserveMecanumWheel h ob ls angles i impl) (bodyID ol) =
          (True, d))
   \<and> rollingDirection False ang ax n = cross ax n
   \<and> rollingDirection True 0 ax n = cross ax n
   \<and> rollingDirection True PI_2 ax n = cross (cross ax n) n
   \<and> (cross ax n \<noteq> Zero3 \<longrightarrow> rollingDirection True PI_2 ax n \<noteq> cross ax n)"
proof -
  have plain: "rollingDirection False ang ax n = cross ax n"
    by (simp add: rollingDirection_def)
  show ?thesis
    using cross_right_differs [of "cross ax n" n]
    by (auto simp: barrelAngleSetting_def preserveMecanumWheel_stores rollingDirection_zero
        rollingDirection_half_pi plain)
qed

text \<open>
  The link \<open>WHEEL\<close> of the example body, unconfigured and configured with \<open>PI_2\<close>.
\<close>

theorem barrel_angle_rolling_direction_witness:
  "getMecanumWheelSetting (preserveMecanumWheelSetting ex_link (ex_body_wheel None) ex_impl) 1 =
     (True, 0)
   \<and> getMecanumWheelSetting
        (preserveMecanumWheelSetting ex_link
           (ex_body_wheel (Some [ScalarNode ''1.5708'' (Some PI_2)])) ex_impl) 1 = (True, 0)
   \<and> rollingDirection True 0 (0, 1, 0) (0, 0, 1) = cross (0, 1, 0) (0, 0, 1)
   \<and> rollingDirection True PI_2 (0, 1, 0) (0, 0, 1) \<noteq> cross (0, 1, 0) (0, 0, 1)"
proof -
  let ?angs = "[ScalarNode ''1.5708'' (Some PI_2)]"
  let ?ls = "[ScalarNode ''WHEEL'' None]"
  have half: "PI_2 \<noteq> 0" by (simp add: PI_2_def)
  note none = barrel_angle_rolling_direction
    [where i = 0 and angs = ?angs and ?d2.0 = PI_2 and ls = ?ls and s = "''WHEEL''"
      and h = ex_link and ob = "ex_body_wheel None" and p = 1 and angles = None and d = 0
      and ol = "ex_odeLink 1" and impl = ex_impl and ax = "(0, 1, 0)" and n = "(0, 0, 1)"]
  note conf = barrel_angle_rolling_direction
    [where i = 0 and angs = ?angs and ?d2.0 = PI_2 and ls = ?ls and s = "''WHEEL''"
      and h = ex_link and ob = "ex_body_wheel (Some ?angs)" and p = 1
      and angles = "Some ?angs" and d = 0
      and ol = "ex_odeLink 1" and impl = ex_impl and ax = "(0, 1, 0)" and n = "(0, 0, 1)"]
  have a: "getMecanumWheelSetting
      (preserveMecanumWheel ex_link (ex_body_wheel None) ?ls None 0 ex_impl) 1 = (True, 0)"
    using none ex_wheel_found
    by (simp add: ex_body_wheel_def ex_link_def ex_odeLink_def ex_impl_def)
  have b: "getMecanumWheelSetting
      (preserveMecanumWheel ex_link (ex_body_wheel (Some ?angs)) ?ls (Some ?angs) 0 ex_impl) 1 =
      (True, 0)"
    using conf ex_wheel_found half
    by (simp add: ex_body_wheel_def ex_link_def ex_odeLink_def ex_impl_def)
  have c: "rollingDirection True 0 (0, 1, 0) (0, 0, 1) = cross (0, 1, 0) (0, 0, 1)"
    using none by blast
  have d: "rollingDirection True PI_2 (0, 1, 0) (0, 0, 1) \<noteq> cross (0, 1, 0) (0, 0, 1)"
    using none by (simp add: Zero3_def)
  from a b c d show ?thesis
    by (simp add: preserveMecanumWheelSetting_def ex_body_wheel_def)
qed

text \<open>
  The claim as it was stated fails for a configured barrel angle of 0: the rotation that
  is stored and applied is \<open>PI_2\<close>, not 0, and the rolling direction is
  \<open>(0, -1, 0)\<close>, not the \<open>(1, 0, 0)\<close> of the rotation by 0.
\<close>

theorem barrel_angle_zero_counterexample:
  "getMecanumWheelSetting
     (preserveMecanumWheelSetting ex_link (ex_body_wheel (Some [ScalarNode ''0'' (Some 0)]))
        ex_impl) 1 = (True, PI_2)
   \<and> PI_2 \<noteq> 0
   \<and> rollingDirection True PI_2 (0, 1, 0) (0, 0, 1) = (0, - 1, 0)
   \<and> rollingDirection True 0 (0, 1, 0) (0, 0, 1) = (1, 0, 0)"
proof -
  have "getMecanumWheelSetting
     (preserveMecanumWheelSetting ex_link (ex_body_wheel (Some [ScalarNode ''0'' (Some 0)]))
        ex_impl) 1 = (True, PI_2)"
    using ex_wheel_found
    by (simp add: preserveMecanumWheelSetting_def preserveMecanumWheel_def ex_body_wheel_def
        barrelAngleSetting_def ex_link_def ex_odeLink_def ex_impl_def map_insert_def
        getMecanumWheelSetting_def)
  moreover have "PI_2 \<noteq> 0" by (simp add: PI_2_def)
  ultimately show ?thesis using ex_rolling by simp
qed

subsection \<open>The nailed-object registry\<close>

text \<open>
  Claim C9. For every body handle \<open>b\<close>, \<open>find(b)\<close> is true if and only if \<open>get(b)\<close> is
  not the null pointer; \<open>get(b)\<close> is null exactly when no nailed object is registered
  under \<open>b\<close> (no entry of the registry has the key \<open>b\<close>), and neither call changes the
  registry. (The registry holds objects, never null pointers: \<open>addObject\<close> dereferences
  the object it is given.)
\<close>

theorem find_iff_get_nonnull:
  "fst (NailedObjectManager_find b mgr) = (fst (NailedObjectManager_get b mgr) \<noteq> None)
   \<and> (fst (NailedObjectManager_get b mgr) = None) = (b \<notin> fst ` set (objectMap mgr))
   \<and> snd (NailedObjectManager_find b mgr) = mgr
   \<and> snd (NailedObjectManager_get b mgr) = mgr"
  by (simp add: NailedObjectManager_find_def NailedObjectManager_get_def
      map_of_eq_None_keys [symmetric] split: option.splits)

text \<open>
  The same at a registry built by \<open>addObject\<close>: body 7 is registered, body 8 is not.
\<close>

theorem find_iff_get_nonnull_witness:
  "fst (NailedObjectManager_find 7
          (addObject \<lparr>objId = 7, nailJointID = 3, maxFasteningForce = 1\<rparr> \<lparr>objectMap = []\<rparr>))
   \<and> fst (NailedObjectManager_get 7
          (addObject \<lparr>objId = 7, nailJointID = 3, maxFasteningForce = 1\<rparr> \<lparr>objectMap = []\<rparr>))
       = Some \<lparr>objId = 7, nailJointID = 3, maxFasteningForce = 1\<rparr>
   \<and> \<not> fst (NailedObjectManager_find 8
          (addObject \<lparr>objId = 7, nailJointID = 3, maxFasteningForce = 1\<rparr> \<lparr>objectMap = []\<rparr>))
   \<and> fst (NailedObjectManager_get 8
          (addObject \<lparr>objId = 7, nailJointID = 3, maxFasteningForce = 1\<rparr> \<lparr>objectMap = []\<rparr>))
       = None"
  using find_iff_get_nonnull
    [of 7 "addObject \<lparr>objId = 7, nailJointID = 3, maxFasteningForce = 1\<rparr> \<lparr>objectMap = []\<rparr>"]
    find_iff_get_nonnull
    [of 8 "addObject \<lparr>objId = 7, nailJointID = 3, maxFasteningForce = 1\<rparr> \<lparr>objectMap = []\<rparr>"]
  by (simp add: addObject_def map_insert_def getBodyID_def NailedObjectManager_get_def)

end
